theory Spec2Isabelle
  imports Complex_Main "HOL-Library.Multiset"
begin

section \<open>Data model\<close>

text \<open>
  The application keeps three collections in AsyncStorage, each as one JSON array under
  one key. The records below follow the TypeScript interfaces of
  \<^verbatim>\<open>services/notifications.ts\<close>, \<^verbatim>\<open>services/statistics.ts\<close> and
  \<^verbatim>\<open>screens/CreateAppointmentScreen.tsx\<close>. The field \<^verbatim>\<open>id\<close> of each interface is
  written with the record's name in front, because \<open>id\<close> is the identity function of HOL.
\<close>

datatype status = Pending | Confirmed | Cancelled

datatype notification_type =
  appointment_confirmed | appointment_cancelled | appointment_reminder | general

text \<open>
  \<^verbatim>\<open>createdAt\<close> is stored as the ISO-8601 text of an instant and only ever read back through
  \<^verbatim>\<open>new Date(createdAt).getTime()\<close>. The model keeps the instant itself, in milliseconds
  since the epoch: \<^verbatim>\<open>toISOString\<close> followed by \<^verbatim>\<open>new Date(...).getTime()\<close> is the identity
  on instants.
\<close>

record notification =
  notification_id :: string
  userId :: string
  title :: string
  message :: string
  ntype :: notification_type
  read :: bool
  createdAt :: int
  appointmentId :: "string option"

text \<open>The argument of \<^verbatim>\<open>createNotification\<close>: a notification without id, createdAt and read.\<close>

record notification_draft =
  draft_userId :: string
  draft_type :: notification_type
  draft_title :: string
  draft_message :: string
  draft_appointmentId :: "string option"

record appointment =
  appointment_id :: string
  patientId :: string
  patientName :: string
  doctorId :: string
  doctorName :: string
  date :: string
  time :: string
  specialty :: string
  status :: status

record doctor =
  doctor_id :: string
  doctor_name :: string
  doctor_specialty :: string
  doctor_image :: string

record user =
  user_id :: string
  user_name :: string
  user_email :: string
  user_role :: string

section \<open>The blob store\<close>

text \<open>
  What \<^verbatim>\<open>AsyncStorage.getItem(key)\<close> followed by \<^verbatim>\<open>stored ? JSON.parse(stored) : []\<close> can
  meet under one key: nothing (\<^verbatim>\<open>null\<close>, or the empty text, which is falsy as well), a
  text that \<^verbatim>\<open>JSON.parse\<close> rejects (or whose value is not an array, so that the first array
  method throws), or the text that \<^verbatim>\<open>JSON.stringify\<close> wrote for an array of records, which
  parses back to that array. The calls \<^verbatim>\<open>getItem\<close> and \<^verbatim>\<open>setItem\<close> themselves are taken to
  succeed, and the operations run one after the other.
\<close>

datatype 'a item = Missing | Garbled | Encoded "'a list"

text \<open>
  The keys \<^verbatim>\<open>@MedicalApp:appointments\<close>, \<^verbatim>\<open>@MedicalApp:notifications\<close> and
  \<^verbatim>\<open>@MedicalApp:registeredUsers\<close>.
\<close>

record storage =
  appointments :: "appointment item"
  notifications :: "notification item"
  registeredUsers :: "user item"

datatype error =
  SyntaxError
  | ValidationError string
  | NotFoundError
  | CaughtError string

text \<open>\<^verbatim>\<open>stored ? JSON.parse(stored) : []\<close>: the parse throws on a corrupt payload.\<close>

definition parse_or_empty :: "'a item \<Rightarrow> error + 'a list" where
  "parse_or_empty stored =
     (case stored of
        Missing \<Rightarrow> Inr []
      | Garbled \<Rightarrow> Inl SyntaxError
      | Encoded xs \<Rightarrow> Inr xs)"

text \<open>
  The collection a reader sees under a key, with the convention of the notification
  service: an absent or unreadable payload counts as the empty sequence.
\<close>

definition stored_notifications :: "storage \<Rightarrow> notification list" where
  "stored_notifications st =
     (case parse_or_empty (notifications st) of Inl e \<Rightarrow> [] | Inr xs \<Rightarrow> xs)"

definition stored_appointments :: "storage \<Rightarrow> appointment list" where
  "stored_appointments st =
     (case parse_or_empty (appointments st) of Inl e \<Rightarrow> [] | Inr xs \<Rightarrow> xs)"

section \<open>services/notifications.ts\<close>

text \<open>
  \<^verbatim>\<open>Array.prototype.sort(cmp)\<close> is a stable sort (ECMAScript 2019): elements that the
  comparator ranks alike keep their order. It is modelled as insertion sort: going from
  the right end of the array, each element is put in front of the first element that
  need not come before it (\<^verbatim>\<open>cmp(x, y) <= 0\<close>).
\<close>

fun insert_by :: "('a \<Rightarrow> 'a \<Rightarrow> int) \<Rightarrow> 'a \<Rightarrow> 'a list \<Rightarrow> 'a list" where
  "insert_by cmp x [] = [x]"
| "insert_by cmp x (y # ys) =
     (if cmp x y \<le> 0 then x # y # ys else y # insert_by cmp x ys)"

definition Array_sort :: "('a \<Rightarrow> 'a \<Rightarrow> int) \<Rightarrow> 'a list \<Rightarrow> 'a list" where
  "Array_sort cmp xs = foldr (insert_by cmp) xs []"

text \<open>The comparator of \<^verbatim>\<open>getNotifications\<close>: \<^verbatim>\<open>getTime(b.createdAt) - getTime(a.createdAt)\<close>.\<close>

definition by_createdAt_desc :: "notification \<Rightarrow> notification \<Rightarrow> int" where
  "by_createdAt_desc a b = createdAt b - createdAt a"

text \<open>
  Every operation of the service wraps its body in \<^verbatim>\<open>try\<close>/\<^verbatim>\<open>catch\<close>; the handler logs and
  returns (an empty array for the readers, nothing for the writers), so no error leaves
  the service and a failed writer leaves the store as it was.
\<close>

definition getNotifications :: "storage \<Rightarrow> string \<Rightarrow> notification list" where
  "getNotifications st uid =
     (case parse_or_empty (notifications st) of
        Inl e \<Rightarrow> []
      | Inr allNotifications \<Rightarrow>
          Array_sort by_createdAt_desc (filter (\<lambda>n. userId n = uid) allNotifications))"

text \<open>Decimal text of a number, as \<^verbatim>\<open>Number.prototype.toString\<close> gives for a non-negative integer.\<close>

definition digit :: "nat \<Rightarrow> char" where
  "digit d = ''0123456789'' ! d"

function toString :: "nat \<Rightarrow> string" where
  "toString n = (if n < 10 then [digit n] else toString (n div 10) @ [digit (n mod 10)])"
  by pat_completeness auto
termination
  by (relation "measure (\<lambda>n. n)") auto

declare toString.simps [simp del]

text \<open>
  \<^verbatim>\<open>createNotification\<close> reads the clock twice: \<^verbatim>\<open>Date.now()\<close> for the id (\<open>t_id\<close>) and
  \<^verbatim>\<open>new Date()\<close> for \<^verbatim>\<open>createdAt\<close> (\<open>t_created\<close>). \<open>newNotification\<close> is the object it
  pushes: the draft, completed with id, createdAt and \<^verbatim>\<open>read: false\<close>.
\<close>

definition newNotification :: "nat \<Rightarrow> int \<Rightarrow> notification_draft \<Rightarrow> notification" where
  "newNotification t_id t_created d =
     \<lparr> notification_id = toString t_id,
       userId = draft_userId d,
       title = draft_title d,
       message = draft_message d,
       ntype = draft_type d,
       read = False,
       createdAt = t_created,
       appointmentId = draft_appointmentId d \<rparr>"

definition createNotification ::
  "nat \<Rightarrow> int \<Rightarrow> notification_draft \<Rightarrow> storage \<Rightarrow> storage" where
  "createNotification t_id t_created d st =
     (case parse_or_empty (notifications st) of
        Inl e \<Rightarrow> st
      | Inr allNotifications \<Rightarrow>
          st\<lparr>notifications :=
               Encoded (allNotifications @ [newNotification t_id t_created d])\<rparr>)"

definition markAsRead :: "string \<Rightarrow> storage \<Rightarrow> storage" where
  "markAsRead notificationId st =
     (case parse_or_empty (notifications st) of
        Inl e \<Rightarrow> st
      | Inr allNotifications \<Rightarrow>
          st\<lparr>notifications :=
               Encoded (map (\<lambda>n. if notification_id n = notificationId
                                   then n\<lparr>read := True\<rparr> else n) allNotifications)\<rparr>)"

definition markAllAsRead :: "string \<Rightarrow> storage \<Rightarrow> storage" where
  "markAllAsRead uid st =
     (case parse_or_empty (notifications st) of
        Inl e \<Rightarrow> st
      | Inr allNotifications \<Rightarrow>
          st\<lparr>notifications :=
               Encoded (map (\<lambda>n. if userId n = uid
                                   then n\<lparr>read := True\<rparr> else n) allNotifications)\<rparr>)"

definition deleteNotification :: "string \<Rightarrow> storage \<Rightarrow> storage" where
  "deleteNotification notificationId st =
     (case parse_or_empty (notifications st) of
        Inl e \<Rightarrow> st
      | Inr allNotifications \<Rightarrow>
          st\<lparr>notifications :=
               Encoded (filter (\<lambda>n. notification_id n \<noteq> notificationId) allNotifications)\<rparr>)"

definition getUnreadCount :: "storage \<Rightarrow> string \<Rightarrow> nat" where
  "getUnreadCount st uid = length (filter (\<lambda>n. \<not> read n) (getNotifications st uid))"

text \<open>
  The helpers that bind an appointment event to \<^verbatim>\<open>createNotification\<close>. The letters
  outside ASCII in the Portuguese templates are written by their code points.
\<close>

definition notifyAppointmentConfirmed ::
  "nat \<Rightarrow> int \<Rightarrow> string \<Rightarrow> appointment \<Rightarrow> storage \<Rightarrow> storage" where
  "notifyAppointmentConfirmed t_id t_created patient appointmentDetails st =
     createNotification t_id t_created
       \<lparr> draft_userId = patient,
         draft_type = appointment_confirmed,
         draft_title = ''Consulta Confirmada'',
         draft_message =
           ''Sua consulta com '' @ doctorName appointmentDetails @ '' foi confirmada para ''
           @ date appointmentDetails @ '' '' @ [CHR 0xE0] @ ''s ''
           @ time appointmentDetails @ ''.'',
         draft_appointmentId = Some (appointment_id appointmentDetails) \<rparr> st"

definition notifyAppointmentCancelled ::
  "nat \<Rightarrow> int \<Rightarrow> string \<Rightarrow> appointment \<Rightarrow> string option \<Rightarrow> storage \<Rightarrow> storage" where
  "notifyAppointmentCancelled t_id t_created patient appointmentDetails reason st =
     createNotification t_id t_created
       \<lparr> draft_userId = patient,
         draft_type = appointment_cancelled,
         draft_title = ''Consulta Cancelada'',
         draft_message =
           ''Sua consulta com '' @ doctorName appointmentDetails @ '' foi cancelada.''
           @ (case reason of
                None \<Rightarrow> []
              | Some r \<Rightarrow> if r = [] then [] else '' Motivo: '' @ r),
         draft_appointmentId = Some (appointment_id appointmentDetails) \<rparr> st"

definition notifyNewAppointment ::
  "nat \<Rightarrow> int \<Rightarrow> string \<Rightarrow> appointment \<Rightarrow> storage \<Rightarrow> storage" where
  "notifyNewAppointment t_id t_created doctor appointmentDetails st =
     createNotification t_id t_created
       \<lparr> draft_userId = doctor,
         draft_type = general,
         draft_title = ''Nova Consulta Agendada'',
         draft_message =
           patientName appointmentDetails @ '' agendou uma consulta para ''
           @ date appointmentDetails @ '' '' @ [CHR 0xE0] @ ''s ''
           @ time appointmentDetails @ ''.'',
         draft_appointmentId = Some (appointment_id appointmentDetails) \<rparr> st"

section \<open>components/TimeSlotList.tsx and components/AppointmentForm.tsx\<close>

definition padStart :: "nat \<Rightarrow> char \<Rightarrow> string \<Rightarrow> string" where
  "padStart n c s = replicate (n - length s) c @ s"

text \<open>The loop \<^verbatim>\<open>for (let hour = 9; hour < 18; hour++)\<close> of \<^verbatim>\<open>generateTimeSlots\<close>.\<close>

function slots_from :: "nat \<Rightarrow> string list" where
  "slots_from hour =
     (if hour < 18
      then [padStart 2 CHR ''0'' (toString hour) @ '':00'',
            padStart 2 CHR ''0'' (toString hour) @ '':30''] @ slots_from (hour + 1)
      else [])"
  by pat_completeness auto
termination
  by (relation "measure (\<lambda>hour. 18 - hour)") auto

declare slots_from.simps [simp del]

definition generateTimeSlots :: "string list" where
  "generateTimeSlots = slots_from 9"

text \<open>
  The pattern \<^verbatim>\<open>/^(\d{2})\/(\d{2})\/(\d{4})$/\<close> of \<^verbatim>\<open>validateDate\<close>: ten characters,
  digits around two slashes; the groups are day, month and year.
\<close>

definition is_digit :: "char \<Rightarrow> bool" where
  "is_digit c = (c \<in> set ''0123456789'')"

definition match_date :: "string \<Rightarrow> (string \<times> string \<times> string) option" where
  "match_date s =
     (case s of
        [d1, d2, s1, m1, m2, s2, y1, y2, y3, y4] \<Rightarrow>
          if list_all is_digit [d1, d2, m1, m2, y1, y2, y3, y4]
             \<and> s1 = CHR ''/'' \<and> s2 = CHR ''/''
          then Some ([d1, d2], [m1, m2], [y1, y2, y3, y4])
          else None
      | _ \<Rightarrow> None)"

text \<open>\<^verbatim>\<open>parseInt\<close> on a text of decimal digits, the only texts the form passes to it.\<close>

definition parseInt :: "string \<Rightarrow> int" where
  "parseInt s = foldl (\<lambda>acc c. 10 * acc + (int (of_char c) - int (of_char CHR ''0''))) 0 s"

text \<open>
  The calendar of the JavaScript runtime is a parameter of \<^verbatim>\<open>validateDate\<close>:
  \<open>mkDate y m d\<close> is the instant of \<^verbatim>\<open>new Date(y, m, d)\<close>, \<open>today\<close> the instant of
  \<^verbatim>\<open>new Date()\<close> and \<open>maxDate\<close> the instant of
  \<^verbatim>\<open>new Date(new Date().setMonth(new Date().getMonth() + 3))\<close>.
\<close>

definition validateDate :: "(int \<Rightarrow> int \<Rightarrow> int \<Rightarrow> int) \<Rightarrow> int \<Rightarrow> int \<Rightarrow> string \<Rightarrow> bool" where
  "validateDate mkDate today maxDate inputDate =
     (case match_date inputDate of
        None \<Rightarrow> False
      | Some (day, month, year) \<Rightarrow>
          (let d = mkDate (parseInt year) (parseInt month - 1) (parseInt day)
           in d \<ge> today \<and> d \<le> maxDate))"

text \<open>What the form hands to \<^verbatim>\<open>onSubmit\<close>.\<close>

record submission =
  sub_doctorId :: string
  sub_date :: int
  sub_time :: string
  sub_description :: string

text \<open>
  \<^verbatim>\<open>handleSubmit\<close> of the form: both checks end in an alert and return without calling
  \<^verbatim>\<open>onSubmit\<close>. After \<^verbatim>\<open>validateDate\<close> has passed, \<^verbatim>\<open>dateInput.split('/')\<close> gives the three
  groups of the pattern, so the model reads them from the match; its branch for a text
  that does not match is never taken, \<^verbatim>\<open>validateDate\<close> having just accepted the text.
\<close>

definition handleSubmit ::
  "(int \<Rightarrow> int \<Rightarrow> int \<Rightarrow> int) \<Rightarrow> int \<Rightarrow> int \<Rightarrow> string \<Rightarrow> string \<Rightarrow> string \<Rightarrow> string
     \<Rightarrow> error + submission" where
  "handleSubmit mkDate today maxDate selectedDoctor dateInput selectedTime description =
     (if selectedDoctor = [] \<or> selectedTime = [] \<or> description = []
      then Inl (ValidationError ''Por favor, preencha todos os campos'')
      else if \<not> validateDate mkDate today maxDate dateInput
      then Inl (ValidationError
                  (''Por favor, insira uma data v'' @ [CHR 0xE1] @ ''lida (DD/MM/AAAA)''))
      else (case match_date dateInput of
              None \<Rightarrow> Inl (ValidationError [])
            | Some (day, month, year) \<Rightarrow>
                Inr \<lparr> sub_doctorId = selectedDoctor,
                      sub_date = mkDate (parseInt year) (parseInt month - 1) (parseInt day),
                      sub_time = selectedTime,
                      sub_description = description \<rparr>))"

section \<open>screens/CreateAppointmentScreen.tsx\<close>

text \<open>
  \<^verbatim>\<open>handleCreateAppointment\<close> of the screen that notifies the doctor. Its state is the
  logged-in user, the text of the date field, the selected time (\<^verbatim>\<open>''\<close> until one is
  picked) and the selected doctor (\<^verbatim>\<open>null\<close> until one is picked). \<open>t\<close> is the reading of
  \<^verbatim>\<open>Date.now()\<close> for the id; \<open>t_id\<close> and \<open>t_created\<close> are the readings of the
  notification that follows. \<open>newAppointment\<close> is the object the function builds
  (\<^verbatim>\<open>user?.id || ''\<close> is the empty text when nobody is logged in). The check
  \<^verbatim>\<open>!date || !selectedTime || !selectedDoctor\<close> is the only validation: it sets the error
  text and returns. The \<^verbatim>\<open>catch\<close> turns a failed parse of the stored appointments into
  the screen's second error text. In both cases nothing is written.
\<close>

definition newAppointment :: "nat \<Rightarrow> user option \<Rightarrow> string \<Rightarrow> string \<Rightarrow> doctor \<Rightarrow> appointment" where
  "newAppointment t usr dateText selectedTime doc =
     \<lparr> appointment_id = toString t,
       patientId = (case usr of None \<Rightarrow> [] | Some u \<Rightarrow> user_id u),
       patientName = (case usr of None \<Rightarrow> [] | Some u \<Rightarrow> user_name u),
       doctorId = doctor_id doc,
       doctorName = doctor_name doc,
       date = dateText,
       time = selectedTime,
       specialty = doctor_specialty doc,
       status = Pending \<rparr>"

definition required_fields_message :: string where
  "required_fields_message =
     ''Por favor, preencha a data e selecione um m'' @ [CHR 0xE9] @ ''dico e hor''
     @ [CHR 0xE1] @ ''rio''"

definition handleCreateAppointment ::
  "nat \<Rightarrow> nat \<Rightarrow> int \<Rightarrow> user option \<Rightarrow> string \<Rightarrow> string \<Rightarrow> doctor option \<Rightarrow> storage
     \<Rightarrow> error + storage" where
  "handleCreateAppointment t t_id t_created usr dateText selectedTime selectedDoctor st =
     (case selectedDoctor of
        None \<Rightarrow> Inl (ValidationError required_fields_message)
      | Some doc \<Rightarrow>
          if dateText = [] \<or> selectedTime = []
          then Inl (ValidationError required_fields_message)
          else
            (case parse_or_empty (appointments st) of
               Inl e \<Rightarrow> Inl (CaughtError ''Erro ao agendar consulta. Tente novamente.'')
             | Inr existing \<Rightarrow>
                 (let appt = newAppointment t usr dateText selectedTime doc;
                      st' = st\<lparr>appointments := Encoded (existing @ [appt])\<rparr>
                  in Inr (notifyNewAppointment t_id t_created (doctor_id doc) appt st'))))"

text \<open>
  The state of the screen and what can change it. The date field takes any text
  (\<^verbatim>\<open>onChangeText={setDate}\<close>). \<^verbatim>\<open>TimeSlotList\<close> renders one card for each generated slot
  and calls \<^verbatim>\<open>onSelectTime\<close> with the time of the card that was pressed; \<^verbatim>\<open>DoctorList\<close>
  renders one item for each of the \<^verbatim>\<open>availableDoctors\<close> and calls \<^verbatim>\<open>onSelectDoctor\<close>
  with the doctor of the item that was pressed. Nothing else writes the three states,
  which start as \<^verbatim>\<open>''\<close>, \<^verbatim>\<open>''\<close> and \<^verbatim>\<open>null\<close>.
\<close>

definition dr_silva :: doctor where
  "dr_silva =
     \<lparr> doctor_id = ''1'',
       doctor_name = ''Dr. Jo'' @ [CHR 0xE3] @ ''o Silva'',
       doctor_specialty = ''Cardiologia'',
       doctor_image = ''https://randomuser.me/api/portraits/men/1.jpg'' \<rparr>"

definition dra_santos :: doctor where
  "dra_santos =
     \<lparr> doctor_id = ''2'',
       doctor_name = ''Dra. Maria Santos'',
       doctor_specialty = ''Pediatria'',
       doctor_image = ''https://randomuser.me/api/portraits/women/1.jpg'' \<rparr>"

definition dr_oliveira :: doctor where
  "dr_oliveira =
     \<lparr> doctor_id = ''3'',
       doctor_name = ''Dr. Pedro Oliveira'',
       doctor_specialty = ''Ortopedia'',
       doctor_image = ''https://randomuser.me/api/portraits/men/2.jpg'' \<rparr>"

definition dra_costa :: doctor where
  "dra_costa =
     \<lparr> doctor_id = ''4'',
       doctor_name = ''Dra. Ana Costa'',
       doctor_specialty = ''Dermatologia'',
       doctor_image = ''https://randomuser.me/api/portraits/women/2.jpg'' \<rparr>"

definition dr_mendes :: doctor where
  "dr_mendes =
     \<lparr> doctor_id = ''5'',
       doctor_name = ''Dr. Carlos Mendes'',
       doctor_specialty = ''Oftalmologia'',
       doctor_image = ''https://randomuser.me/api/portraits/men/3.jpg'' \<rparr>"

definition availableDoctors :: "doctor list" where
  "availableDoctors = [dr_silva, dra_santos, dr_oliveira, dra_costa, dr_mendes]"

record screen =
  screen_date :: string
  screen_time :: string
  screen_doctor :: "doctor option"

definition initial_screen :: screen where
  "initial_screen = \<lparr> screen_date = [], screen_time = [], screen_doctor = None \<rparr>"

inductive reachable :: "screen \<Rightarrow> bool" where
  mounted: "reachable initial_screen"
| onChangeText: "reachable s \<Longrightarrow> reachable (s\<lparr>screen_date := typed\<rparr>)"
| onSelectTime:
    "reachable s \<Longrightarrow> slot_time \<in> set generateTimeSlots \<Longrightarrow> reachable (s\<lparr>screen_time := slot_time\<rparr>)"
| onSelectDoctor:
    "reachable s \<Longrightarrow> d \<in> set availableDoctors \<Longrightarrow> reachable (s\<lparr>screen_doctor := Some d\<rparr>)"

text \<open>Pressing \<^verbatim>\<open>Agendar\<close> runs \<^verbatim>\<open>handleCreateAppointment\<close> on the state of the screen.\<close>

definition press_Agendar ::
  "nat \<Rightarrow> nat \<Rightarrow> int \<Rightarrow> user option \<Rightarrow> screen \<Rightarrow> storage \<Rightarrow> error + storage" where
  "press_Agendar t t_id t_created usr s st =
     handleCreateAppointment t t_id t_created usr (screen_date s) (screen_time s)
       (screen_doctor s) st"

section \<open>JavaScript numbers\<close>

text \<open>
  A JavaScript number is an IEEE 754 double: \<open>Finite m e\<close> stands for the value
  \<open>m * 2 ^ e\<close>, and there are the three values that are not finite. Division and
  multiplication give the double nearest to the exact result, a tie going to the even
  significand of 53 bits. The range of the exponent and the sign of zero are not
  modelled: the numbers computed here are non-negative and lie between
  \<open>2 ^ - 53\<close> and 100, far from the limits.
\<close>

datatype number = Finite int int | NaN | PosInfinity | NegInfinity

definition number_value :: "number \<Rightarrow> rat option" where
  "number_value x =
     (case x of
        Finite m e \<Rightarrow>
          Some (if 0 \<le> e then of_int (m * 2 ^ nat e) else of_int m / of_int (2 ^ nat (- e)))
      | NaN \<Rightarrow> None
      | PosInfinity \<Rightarrow> None
      | NegInfinity \<Rightarrow> None)"

text \<open>The number of binary digits of a natural number.\<close>

function bits :: "nat \<Rightarrow> nat" where
  "bits n = (if n = 0 then 0 else Suc (bits (n div 2)))"
  by pat_completeness auto
termination
  by (relation "measure (\<lambda>n. n)") auto

declare bits.simps [simp del]

text \<open>
  \<open>round_ratio p q\<close>, for positive \<open>p\<close> and \<open>q\<close>, is the nearest double to \<open>p / q\<close> as
  significand and exponent: \<open>e\<close> is the exponent of the leading binary digit of the
  quotient, the quotient is scaled so that its integer part has 53 digits, and the
  remainder decides the rounding.
\<close>

definition round_ratio :: "int \<Rightarrow> int \<Rightarrow> int \<times> int" where
  "round_ratio p q =
     (let k = int (bits (nat p)) - int (bits (nat q));
          e = (if q * 2 ^ nat k \<le> p * 2 ^ nat (- k) then k else k - 1);
          s = e - 52;
          n = p * 2 ^ nat (- s);
          d = q * 2 ^ nat s;
          f = n div d;
          r = n mod d
      in ((if 2 * r < d then f
           else if d < 2 * r then f + 1
           else if even f then f else f + 1), s))"

fun js_divide :: "number \<Rightarrow> number \<Rightarrow> number" where
  "js_divide NaN y = NaN"
| "js_divide x NaN = NaN"
| "js_divide (Finite m1 e1) (Finite m2 e2) =
     (if m2 = 0 then (if m1 = 0 then NaN else if 0 < m1 then PosInfinity else NegInfinity)
      else if m1 = 0 then Finite 0 0
      else (case round_ratio \<bar>m1\<bar> \<bar>m2\<bar> of
              (r, s) \<Rightarrow> Finite (sgn m1 * sgn m2 * r) (s + e1 - e2)))"
| "js_divide (Finite m e) y = Finite 0 0"
| "js_divide PosInfinity (Finite m e) = (if m < 0 then NegInfinity else PosInfinity)"
| "js_divide NegInfinity (Finite m e) = (if m < 0 then PosInfinity else NegInfinity)"
| "js_divide x y = NaN"

fun js_times :: "number \<Rightarrow> number \<Rightarrow> number" where
  "js_times NaN y = NaN"
| "js_times x NaN = NaN"
| "js_times (Finite m1 e1) (Finite m2 e2) =
     (if m1 * m2 = 0 then Finite 0 0
      else (case round_ratio \<bar>m1 * m2\<bar> 1 of
              (r, s) \<Rightarrow> Finite (sgn (m1 * m2) * r) (s + e1 + e2)))"
| "js_times (Finite m e) PosInfinity =
     (if m = 0 then NaN else if 0 < m then PosInfinity else NegInfinity)"
| "js_times (Finite m e) NegInfinity =
     (if m = 0 then NaN else if 0 < m then NegInfinity else PosInfinity)"
| "js_times PosInfinity (Finite m e) =
     (if m = 0 then NaN else if 0 < m then PosInfinity else NegInfinity)"
| "js_times NegInfinity (Finite m e) =
     (if m = 0 then NaN else if 0 < m then NegInfinity else PosInfinity)"
| "js_times PosInfinity PosInfinity = PosInfinity"
| "js_times PosInfinity NegInfinity = NegInfinity"
| "js_times NegInfinity PosInfinity = NegInfinity"
| "js_times NegInfinity NegInfinity = PosInfinity"

section \<open>services/statistics.ts\<close>

text \<open>
  \<^verbatim>\<open>String.prototype.split('/')\<close>: the pieces between the slashes; a text without a slash
  is its own single piece.
\<close>

fun split_slash :: "string \<Rightarrow> string list" where
  "split_slash [] = [[]]"
| "split_slash (c # cs) =
     (if c = CHR ''/'' then [] # split_slash cs
      else (case split_slash cs of
              [] \<Rightarrow> [[c]]
            | p # ps \<Rightarrow> (c # p) # ps))"

text \<open>
  The destructuring \<^verbatim>\<open>const [day, month, year] = ...\<close> reads the positions 0, 1 and 2 of the
  array; a position beyond its end gives \<^verbatim>\<open>undefined\<close> (here \<open>None\<close>), and a template
  literal prints \<^verbatim>\<open>undefined\<close> as the nine letters of its name.
\<close>

fun element :: "'a list \<Rightarrow> nat \<Rightarrow> 'a option" where
  "element [] i = None"
| "element (x # xs) 0 = Some x"
| "element (x # xs) (Suc i) = element xs i"

definition template :: "string option \<Rightarrow> string" where
  "template v = (case v of None \<Rightarrow> ''undefined'' | Some s \<Rightarrow> s)"

definition monthKey :: "appointment \<Rightarrow> string" where
  "monthKey a =
     (let parts = split_slash (date a);
          month = element parts 1;
          year = element parts 2
      in template month @ ''/'' @ template year)"

text \<open>
  The two dictionaries are plain objects, \<^verbatim>\<open>{}\<close>, so a key that no loop has written yet
  is still found when it is a property name of \<^verbatim>\<open>Object.prototype\<close>. A stored value is a
  number of occurrences or, once a text has come into play, a text; which text it is
  depends on the engine and is not modelled.
\<close>

datatype slot = Count nat | Text

definition object_prototype_names :: "string list" where
  "object_prototype_names =
     [''constructor'', ''hasOwnProperty'', ''isPrototypeOf'', ''propertyIsEnumerable'',
      ''toLocaleString'', ''toString'', ''valueOf'', ''__proto__'',
      ''__defineGetter__'', ''__defineSetter__'', ''__lookupGetter__'', ''__lookupSetter__'']"

text \<open>
  \<^verbatim>\<open>counts[key] = (counts[key] || 0) + 1\<close>. An own number \<open>c\<close> becomes \<open>c + 1\<close>. An own text
  is truthy and \<^verbatim>\<open>+ 1\<close> appends to it. Without an own property the value read is
  \<^verbatim>\<open>undefined\<close>, giving 1, unless the key names a property of \<^verbatim>\<open>Object.prototype\<close>: then
  an inherited function (for \<^verbatim>\<open>__proto__\<close> the prototype object) is read, \<^verbatim>\<open>+ 1\<close> makes a
  text of it, and the assignment stores that text, except under \<^verbatim>\<open>__proto__\<close>, whose
  setter ignores a text.
\<close>

definition increment :: "(string \<rightharpoonup> slot) \<Rightarrow> string \<Rightarrow> (string \<rightharpoonup> slot)" where
  "increment counts key =
     (case counts key of
        Some (Count c) \<Rightarrow> counts(key \<mapsto> Count (c + 1))
      | Some Text \<Rightarrow> counts(key \<mapsto> Text)
      | None \<Rightarrow>
          if key = ''__proto__'' then counts
          else if key \<in> set object_prototype_names then counts(key \<mapsto> Text)
          else counts(key \<mapsto> Count 1))"

text \<open>
  The two \<^verbatim>\<open>forEach\<close> loops. The body of the second stands in a \<^verbatim>\<open>try\<close> whose handler
  warns and goes on to the next appointment; \<^verbatim>\<open>split\<close> on a text, the destructuring and
  the template literal do not throw, so for a \<^verbatim>\<open>date\<close> of the declared type the body
  always runs to its end.
\<close>

fun count_specialties ::
  "(string \<rightharpoonup> slot) \<Rightarrow> appointment list \<Rightarrow> (string \<rightharpoonup> slot)" where
  "count_specialties counts [] = counts"
| "count_specialties counts (a # as) = count_specialties (increment counts (specialty a)) as"

fun count_months ::
  "(string \<rightharpoonup> slot) \<Rightarrow> appointment list \<Rightarrow> (string \<rightharpoonup> slot)" where
  "count_months counts [] = counts"
| "count_months counts (a # as) = count_months (increment counts (monthKey a)) as"

record status_percentages =
  confirmed :: number
  pending :: number
  cancelled :: number

record statistics =
  totalAppointments :: nat
  confirmedAppointments :: nat
  pendingAppointments :: nat
  cancelledAppointments :: nat
  totalPatients :: nat
  totalDoctors :: nat
  specialties :: "string \<rightharpoonup> slot"
  appointmentsByMonth :: "string \<rightharpoonup> slot"
  statusPercentages :: status_percentages

text \<open>
  \<^verbatim>\<open>total > 0 ? (n / total) * 100 : 0\<close> for each of the three counts. The counts are
  lengths of arrays, which are integers that a double holds exactly.
\<close>

definition of_length :: "nat \<Rightarrow> number" where
  "of_length n = Finite (int n) 0"

definition percentage :: "nat \<Rightarrow> nat \<Rightarrow> number" where
  "percentage n tot =
     (if tot > 0 then js_times (js_divide (of_length n) (of_length tot)) (Finite 100 0)
      else Finite 0 0)"

text \<open>
  \<^verbatim>\<open>getGeneralStatistics\<close> parses the appointments and then the registered users; its
  handler logs and throws the error again, so a failed parse of either payload is the
  result of the call.
\<close>

definition getGeneralStatistics :: "storage \<Rightarrow> error + statistics" where
  "getGeneralStatistics st =
     (case parse_or_empty (appointments st) of
        Inl e \<Rightarrow> Inl e
      | Inr apps \<Rightarrow>
          (case parse_or_empty (registeredUsers st) of
             Inl e \<Rightarrow> Inl e
           | Inr users \<Rightarrow>
               (let tot = length apps;
                    nConfirmed = length (filter (\<lambda>a. status a = Confirmed) apps);
                    nPending = length (filter (\<lambda>a. status a = Pending) apps);
                    nCancelled = length (filter (\<lambda>a. status a = Cancelled) apps)
                in Inr \<lparr> totalAppointments = tot,
                         confirmedAppointments = nConfirmed,
                         pendingAppointments = nPending,
                         cancelledAppointments = nCancelled,
                         totalPatients = length (remdups (map patientId apps)),
                         totalDoctors = length (remdups (map doctorId apps)),
                         specialties = count_specialties Map.empty apps,
                         appointmentsByMonth = count_months Map.empty apps,
                         statusPercentages =
                           \<lparr> confirmed = percentage nConfirmed tot,
                             pending = percentage nPending tot,
                             cancelled = percentage nCancelled tot \<rparr> \<rparr>)))"

section \<open>The appointment repository of the specification\<close>

text \<open>
  Modelled from the spec: the transition of \<^verbatim>\<open>setStatus\<close> is applied to the record that
  was located by id, the first one that carries it.
\<close>

fun replace_first :: "string \<Rightarrow> status \<Rightarrow> appointment list \<Rightarrow> appointment list" where
  "replace_first i s [] = []"
| "replace_first i s (a # as) =
     (if appointment_id a = i then a\<lparr>status := s\<rparr> # as else a # replace_first i s as)"

text \<open>
  Modelled from the spec: \<^verbatim>\<open>setStatus(id, newStatus, reason?)\<close>. The screen that confirms or
  cancels an appointment is not among the sources; the specification says that the
  operation loads the collection, locates the record by id, fails with
  \<^verbatim>\<open>NotFoundError\<close> if it is absent, applies the transition, persists the whole collection
  and then triggers \<^verbatim>\<open>notifyAppointmentConfirmed\<close> or \<^verbatim>\<open>notifyAppointmentCancelled\<close>
  addressed to the patient. The notification helpers are those of the source; \<open>t_id\<close> and
  \<open>t_created\<close> are their clock readings.
\<close>

definition setStatus ::
  "nat \<Rightarrow> int \<Rightarrow> string \<Rightarrow> status \<Rightarrow> string option \<Rightarrow> storage \<Rightarrow> error + storage" where
  "setStatus t_id t_created i newStatus reason st =
     (case parse_or_empty (appointments st) of
        Inl e \<Rightarrow> Inl e
      | Inr apps \<Rightarrow>
          (case find (\<lambda>a. appointment_id a = i) apps of
             None \<Rightarrow> Inl NotFoundError
           | Some a \<Rightarrow>
               (let updated = a\<lparr>status := newStatus\<rparr>;
                    st' = st\<lparr>appointments := Encoded (replace_first i newStatus apps)\<rparr>
                in Inr (case newStatus of
                          Confirmed \<Rightarrow>
                            notifyAppointmentConfirmed t_id t_created (patientId updated) updated st'
                        | Cancelled \<Rightarrow>
                            notifyAppointmentCancelled t_id t_created (patientId updated) updated
                              reason st'
                        | Pending \<Rightarrow> st'))))"

text \<open>
  Modelled from the spec: \<^verbatim>\<open>delete(id)\<close> removes the record and does not cascade to the
  notifications that refer to it. No source file deletes an appointment.
\<close>

definition deleteAppointment :: "string \<Rightarrow> storage \<Rightarrow> error + storage" where
  "deleteAppointment i st =
     (case parse_or_empty (appointments st) of
        Inl e \<Rightarrow> Inl e
      | Inr apps \<Rightarrow>
          Inr (st\<lparr>appointments := Encoded (filter (\<lambda>a. appointment_id a \<noteq> i) apps)\<rparr>))"

section \<open>Example data\<close>

text \<open>A patient, and some stores.\<close>

definition patient_ana :: user where
  "patient_ana =
     \<lparr> user_id = ''p1'', user_name = ''Ana'', user_email = ''ana@example.com'',
       user_role = ''patient'' \<rparr>"

definition empty_storage :: storage where
  "empty_storage = \<lparr> appointments = Missing, notifications = Missing, registeredUsers = Missing \<rparr>"

definition reminder :: "string \<Rightarrow> string \<Rightarrow> bool \<Rightarrow> int \<Rightarrow> notification" where
  "reminder i u r t =
     \<lparr> notification_id = i, userId = u, title = ''Lembrete de Consulta'', message = ''m'',
       ntype = appointment_reminder, read = r, createdAt = t, appointmentId = None \<rparr>"

definition visit :: "string \<Rightarrow> string \<Rightarrow> status \<Rightarrow> appointment" where
  "visit i d s =
     \<lparr> appointment_id = i, patientId = ''p1'', patientName = ''Ana'', doctorId = ''1'',
       doctorName = ''Dr. Jo'' @ [CHR 0xE3] @ ''o Silva'', date = d, time = ''09:00'',
       specialty = ''Cardiologia'', status = s \<rparr>"

definition with_notifications :: "notification list \<Rightarrow> storage" where
  "with_notifications ns = empty_storage\<lparr>notifications := Encoded ns\<rparr>"

definition with_appointments :: "appointment list \<Rightarrow> storage" where
  "with_appointments as = empty_storage\<lparr>appointments := Encoded as\<rparr>"

text \<open>Ten appointments: three confirmed, four pending, three cancelled.\<close>

definition ten_visits :: "appointment list" where
  "ten_visits =
     [visit ''1'' ''02/03/2026'' Confirmed, visit ''2'' ''03/03/2026'' Pending,
      visit ''3'' ''04/03/2026'' Cancelled, visit ''4'' ''05/03/2026'' Pending,
      visit ''5'' ''06/03/2026'' Confirmed, visit ''6'' ''09/03/2026'' Cancelled,
      visit ''7'' ''10/03/2026'' Pending, visit ''8'' ''11/03/2026'' Confirmed,
      visit ''9'' ''12/03/2026'' Pending, visit ''10'' ''13/03/2026'' Cancelled]"

text \<open>
  Two bookings whose readings of \<^verbatim>\<open>Date.now()\<close> are the same millisecond, the second made
  on the store that the first has left.
\<close>

definition booked_once :: "error + storage" where
  "booked_once =
     handleCreateAppointment 1700000000000 1700000000001 1700000000002 (Some patient_ana)
       ''10/12/2026'' ''09:00'' (Some dr_silva) empty_storage"

definition booked_twice :: "error + storage" where
  "booked_twice =
     handleCreateAppointment 1700000000000 1700000000003 1700000000004 (Some patient_ana)
       ''11/12/2026'' ''10:00'' (Some dr_silva) (projr booked_once)"

text \<open>
  The screen after the date \<^verbatim>\<open>abc\<close> was typed, the card \<^verbatim>\<open>09:00\<close> pressed and the first
  doctor chosen.
\<close>

definition screen_abc :: screen where
  "screen_abc = \<lparr> screen_date = ''abc'', screen_time = ''09:00'', screen_doctor = Some dr_silva \<rparr>"

text \<open>The same screen with the date \<^verbatim>\<open>10/12/2026\<close>.\<close>

definition screen_booking :: screen where
  "screen_booking =
     \<lparr> screen_date = ''10/12/2026'', screen_time = ''09:00'', screen_doctor = Some dr_silva \<rparr>"

text \<open>
  A booking and its confirmation on a store whose notification payload does not parse.
\<close>

definition unreadable_store :: storage where
  "unreadable_store = empty_storage\<lparr>notifications := Garbled\<rparr>"

definition booked_unreadable :: "error + storage" where
  "booked_unreadable =
     handleCreateAppointment 1700000000000 1700000000001 1700000000002 (Some patient_ana)
       ''10/12/2026'' ''09:00'' (Some dr_silva) unreadable_store"

definition confirmed_unreadable :: "error + storage" where
  "confirmed_unreadable =
     setStatus 1700000000005 1700000000006 ''1700000000000'' Confirmed None
       (projr booked_unreadable)"

text \<open>
  A booking whose id is already the id of an appointment of another patient, and the
  confirmation that follows.
\<close>

definition older_visit :: appointment where
  "older_visit =
     (visit ''1700000000000'' ''01/12/2026'' Pending)\<lparr>patientId := ''p2'', patientName := ''Bia''\<rparr>"

definition booked_reused :: "error + storage" where
  "booked_reused =
     handleCreateAppointment 1700000000000 1700000000001 1700000000002 (Some patient_ana)
       ''10/12/2026'' ''09:00'' (Some dr_silva) (with_appointments [older_visit])"

definition confirmed_reused :: "error + storage" where
  "confirmed_reused =
     setStatus 1700000000005 1700000000006 ''1700000000000'' Confirmed None
       (projr booked_reused)"

text \<open>Ten appointments and a payload of registered users that does not parse.\<close>

definition ten_visits_unreadable_users :: storage where
  "ten_visits_unreadable_users = (with_appointments ten_visits)\<lparr>registeredUsers := Garbled\<rparr>"

text \<open>
  A stand-in for the calendar of the runtime, which orders the days as they come; the
  2nd of November 2026 as today and the 2nd of February 2027 as the last day.
\<close>

definition example_calendar :: "int \<Rightarrow> int \<Rightarrow> int \<Rightarrow> int" where
  "example_calendar y m d = (y * 12 + m) * 31 + d"

definition example_today :: int where
  "example_today = example_calendar 2026 10 2"

definition example_maxDate :: int where
  "example_maxDate = example_calendar 2027 1 2"

section \<open>What the notification service keeps and changes\<close>

lemma stored_markAsRead:
  "stored_notifications (markAsRead i st) =
     map (\<lambda>n. if notification_id n = i then n\<lparr>read := True\<rparr> else n) (stored_notifications st)"
  by (cases "notifications st")
     (simp_all add: markAsRead_def stored_notifications_def parse_or_empty_def)

lemma stored_markAllAsRead:
  "stored_notifications (markAllAsRead u st) =
     map (\<lambda>n. if userId n = u then n\<lparr>read := True\<rparr> else n) (stored_notifications st)"
  by (cases "notifications st")
     (simp_all add: markAllAsRead_def stored_notifications_def parse_or_empty_def)

lemma mark_map_idem:
  "map (\<lambda>n. if P n then n\<lparr>read := True\<rparr> else n)
     (map (\<lambda>n. if P n then n\<lparr>read := True\<rparr> else n) xs)
   = map (\<lambda>n. if P n then n\<lparr>read := True\<rparr> else n) xs"
  by (induction xs) auto

lemma markAsRead_twice: "markAsRead i (markAsRead i st) = markAsRead i st"
  by (cases "notifications st")
     (simp_all add: markAsRead_def parse_or_empty_def mark_map_idem)

lemma mark_id_absent:
  "i \<notin> notification_id ` set xs
   \<Longrightarrow> map (\<lambda>n. if notification_id n = i then n\<lparr>read := True\<rparr> else n) xs = xs"
  by (induction xs) auto

lemma markAsRead_marks:
  "\<forall>n \<in> set (stored_notifications (markAsRead i st)). notification_id n = i \<longrightarrow> read n"
proof
  fix n
  assume "n \<in> set (stored_notifications (markAsRead i st))"
  then have "n \<in> (\<lambda>m. if notification_id m = i then m\<lparr>read := True\<rparr> else m)
                  ` set (stored_notifications st)"
    unfolding stored_markAsRead set_map .
  then obtain m where "n = (if notification_id m = i then m\<lparr>read := True\<rparr> else m)"
    by (rule imageE)
  then show "notification_id n = i \<longrightarrow> read n"
    by simp
qed

lemma markAsRead_keeps:
  assumes "n \<in> set (stored_notifications st)" and "notification_id n = i"
  shows "n\<lparr>read := True\<rparr> \<in> set (stored_notifications (markAsRead i st))"
proof -
  let ?f = "\<lambda>m. if notification_id m = i then m\<lparr>read := True\<rparr> else m"
  from assms(1) have "?f n \<in> ?f ` set (stored_notifications st)"
    by (rule imageI)
  with assms(2) show ?thesis
    unfolding stored_markAsRead set_map by simp
qed

text \<open>
  C9. \<^verbatim>\<open>markAsRead\<close> always returns (its handler swallows every error, so the model
  is a total function from stores to stores). The stored collection after a run is the
  one before it, record by record, with \<^verbatim>\<open>read\<close> set to true in the records that carry
  the id: a stored record with the id is still stored, now read, after one run and
  after two; every stored record with the id is read after one run and after two; a
  second run changes nothing that the first run left; and when no stored record has the
  id the collection is the same sequence as before.
\<close>

theorem markAsRead_idempotent_total:
  "markAsRead i (markAsRead i st) = markAsRead i st
   \<and> stored_notifications (markAsRead i st)
       = map (\<lambda>n. if notification_id n = i then n\<lparr>read := True\<rparr> else n)
           (stored_notifications st)
   \<and> (\<forall>n \<in> set (stored_notifications st). notification_id n = i
          \<longrightarrow> n\<lparr>read := True\<rparr> \<in> set (stored_notifications (markAsRead i st))
            \<and> n\<lparr>read := True\<rparr> \<in> set (stored_notifications (markAsRead i (markAsRead i st))))
   \<and> (\<forall>n \<in> set (stored_notifications (markAsRead i st)). notification_id n = i \<longrightarrow> read n)
   \<and> (\<forall>n \<in> set (stored_notifications (markAsRead i (markAsRead i st))).
          notification_id n = i \<longrightarrow> read n)
   \<and> (i \<notin> notification_id ` set (stored_notifications st)
        \<longrightarrow> stored_notifications (markAsRead i st) = stored_notifications st)"
proof (intro conjI)
  show "markAsRead i (markAsRead i st) = markAsRead i st"
    by (rule markAsRead_twice)
  show "stored_notifications (markAsRead i st)
          = map (\<lambda>n. if notification_id n = i then n\<lparr>read := True\<rparr> else n)
              (stored_notifications st)"
    by (rule stored_markAsRead)
  show "\<forall>n \<in> set (stored_notifications st). notification_id n = i
          \<longrightarrow> n\<lparr>read := True\<rparr> \<in> set (stored_notifications (markAsRead i st))
            \<and> n\<lparr>read := True\<rparr> \<in> set (stored_notifications (markAsRead i (markAsRead i st)))"
    unfolding markAsRead_twice
  proof (intro ballI impI conjI)
    fix n
    assume "n \<in> set (stored_notifications st)" and "notification_id n = i"
    then show "n\<lparr>read := True\<rparr> \<in> set (stored_notifications (markAsRead i st))"
      by (rule markAsRead_keeps)
    then show "n\<lparr>read := True\<rparr> \<in> set (stored_notifications (markAsRead i st))" .
  qed
  show "\<forall>n \<in> set (stored_notifications (markAsRead i st)). notification_id n = i \<longrightarrow> read n"
    by (rule markAsRead_marks)
  show "\<forall>n \<in> set (stored_notifications (markAsRead i (markAsRead i st))).
          notification_id n = i \<longrightarrow> read n"
    by (rule markAsRead_marks)
  show "i \<notin> notification_id ` set (stored_notifications st)
        \<longrightarrow> stored_notifications (markAsRead i st) = stored_notifications st"
    unfolding stored_markAsRead by (simp add: mark_id_absent)
qed

theorem markAsRead_idempotent_total_witness:
  "markAsRead ''1'' (markAsRead ''1'' (with_notifications
       [reminder ''1'' ''p1'' False 5, reminder ''2'' ''p2'' False 7]))
     = with_notifications [reminder ''1'' ''p1'' True 5, reminder ''2'' ''p2'' False 7]
   \<and> reminder ''1'' ''p1'' False 5 \<in> set (stored_notifications (with_notifications
       [reminder ''1'' ''p1'' False 5, reminder ''2'' ''p2'' False 7]))
   \<and> reminder ''1'' ''p1'' True 5 \<in> set (stored_notifications (markAsRead ''1''
       (with_notifications [reminder ''1'' ''p1'' False 5, reminder ''2'' ''p2'' False 7])))
   \<and> ''3'' \<notin> notification_id ` set (stored_notifications (with_notifications
       [reminder ''1'' ''p1'' False 5, reminder ''2'' ''p2'' False 7]))
   \<and> stored_notifications (markAsRead ''3'' (with_notifications
       [reminder ''1'' ''p1'' False 5, reminder ''2'' ''p2'' False 7]))
     = [reminder ''1'' ''p1'' False 5, reminder ''2'' ''p2'' False 7]"
proof -
  let ?st = "with_notifications [reminder ''1'' ''p1'' False 5, reminder ''2'' ''p2'' False 7]"
  have stored: "stored_notifications ?st
                  = [reminder ''1'' ''p1'' False 5, reminder ''2'' ''p2'' False 7]"
    by (simp add: with_notifications_def stored_notifications_def parse_or_empty_def)
  have fresh: "''3'' \<notin> notification_id ` set (stored_notifications ?st)"
    unfolding stored by (simp add: reminder_def)
  have member: "reminder ''1'' ''p1'' False 5 \<in> set (stored_notifications ?st)"
    unfolding stored by simp
  have once: "markAsRead ''1'' ?st
                = with_notifications [reminder ''1'' ''p1'' True 5, reminder ''2'' ''p2'' False 7]"
    by (simp add: markAsRead_def with_notifications_def empty_storage_def parse_or_empty_def
          reminder_def)
  have twice: "markAsRead ''1'' (markAsRead ''1'' ?st) = markAsRead ''1'' ?st"
    using markAsRead_idempotent_total [of "''1''" ?st] by (rule conjunct1)
  have "\<forall>n \<in> set (stored_notifications ?st). notification_id n = ''1''
          \<longrightarrow> n\<lparr>read := True\<rparr> \<in> set (stored_notifications (markAsRead ''1'' ?st))
            \<and> n\<lparr>read := True\<rparr>
                \<in> set (stored_notifications (markAsRead ''1'' (markAsRead ''1'' ?st)))"
    using markAsRead_idempotent_total [of "''1''" ?st] by (elim conjE)
  from bspec [OF this member]
  have "(reminder ''1'' ''p1'' False 5)\<lparr>read := True\<rparr>
          \<in> set (stored_notifications (markAsRead ''1'' ?st))"
    by (simp add: reminder_def)
  then have kept: "reminder ''1'' ''p1'' True 5 \<in> set (stored_notifications (markAsRead ''1'' ?st))"
    by (simp add: reminder_def)
  have "''3'' \<notin> notification_id ` set (stored_notifications ?st)
          \<longrightarrow> stored_notifications (markAsRead ''3'' ?st) = stored_notifications ?st"
    using markAsRead_idempotent_total [of "''3''" ?st] by (elim conjE)
  from this fresh
  have same: "stored_notifications (markAsRead ''3'' ?st) = stored_notifications ?st"
    by (rule mp)
  show ?thesis
    using fresh member kept once twice same stored by simp
qed

lemma read_update_same: "read n \<Longrightarrow> n\<lparr>read := True\<rparr> = n"
  by (cases n) simp

lemma mark_frame:
  "list_all2 (\<lambda>old new. new = old \<or> (P old \<and> \<not> read old \<and> new = old\<lparr>read := True\<rparr>))
     xs (map (\<lambda>n. if P n then n\<lparr>read := True\<rparr> else n) xs)"
proof (induction xs)
  case Nil
  show ?case by simp
next
  case (Cons x xs)
  have "(if P x then x\<lparr>read := True\<rparr> else x) = x
        \<or> (P x \<and> \<not> read x \<and> (if P x then x\<lparr>read := True\<rparr> else x) = x\<lparr>read := True\<rparr>)"
    using read_update_same [of x] by (cases "P x"; cases "read x") simp_all
  with Cons.IH show ?case by simp
qed

lemma mark_ids:
  "map notification_id (map (\<lambda>n. if P n then n\<lparr>read := True\<rparr> else n) xs)
     = map notification_id xs"
  by (induction xs) simp_all

lemma markAsRead_other_keys:
  "appointments (markAsRead i st) = appointments st
   \<and> registeredUsers (markAsRead i st) = registeredUsers st"
  by (cases "notifications st") (simp_all add: markAsRead_def parse_or_empty_def)

lemma markAllAsRead_other_keys:
  "appointments (markAllAsRead u st) = appointments st
   \<and> registeredUsers (markAllAsRead u st) = registeredUsers st"
  by (cases "notifications st") (simp_all add: markAllAsRead_def parse_or_empty_def)

text \<open>
  C10. A run of \<^verbatim>\<open>markAsRead\<close> or of \<^verbatim>\<open>markAllAsRead\<close> relates the stored notifications
  before and after position by position: each record is either the same as before, or
  it matched (by id, respectively by user), was unread, and is now the old record with
  only \<^verbatim>\<open>read\<close> set to true. So the number of records, their order and their ids are
  kept; the other two collections are not touched.
\<close>

theorem mark_read_frame:
  "list_all2 (\<lambda>old new. new = old
                \<or> (notification_id old = i \<and> \<not> read old \<and> new = old\<lparr>read := True\<rparr>))
     (stored_notifications st) (stored_notifications (markAsRead i st))
   \<and> list_all2 (\<lambda>old new. new = old
                \<or> (userId old = u \<and> \<not> read old \<and> new = old\<lparr>read := True\<rparr>))
     (stored_notifications st) (stored_notifications (markAllAsRead u st))
   \<and> length (stored_notifications (markAsRead i st)) = length (stored_notifications st)
   \<and> length (stored_notifications (markAllAsRead u st)) = length (stored_notifications st)
   \<and> map notification_id (stored_notifications (markAsRead i st))
       = map notification_id (stored_notifications st)
   \<and> map notification_id (stored_notifications (markAllAsRead u st))
       = map notification_id (stored_notifications st)
   \<and> appointments (markAsRead i st) = appointments st
   \<and> registeredUsers (markAsRead i st) = registeredUsers st
   \<and> appointments (markAllAsRead u st) = appointments st
   \<and> registeredUsers (markAllAsRead u st) = registeredUsers st"
  unfolding stored_markAsRead stored_markAllAsRead
  using mark_frame [of "\<lambda>n. notification_id n = i" "stored_notifications st"]
        mark_frame [of "\<lambda>n. userId n = u" "stored_notifications st"]
        markAsRead_other_keys [of i st] markAllAsRead_other_keys [of u st]
  by (simp add: mark_ids)

theorem mark_read_frame_witness:
  "stored_notifications (with_notifications
       [reminder ''1'' ''p1'' False 5, reminder ''2'' ''p2'' True 7, reminder ''3'' ''p1'' False 9])
     = [reminder ''1'' ''p1'' False 5, reminder ''2'' ''p2'' True 7, reminder ''3'' ''p1'' False 9]
   \<and> stored_notifications (markAsRead ''3'' (with_notifications
       [reminder ''1'' ''p1'' False 5, reminder ''2'' ''p2'' True 7, reminder ''3'' ''p1'' False 9]))
     = [reminder ''1'' ''p1'' False 5, reminder ''2'' ''p2'' True 7, reminder ''3'' ''p1'' True 9]
   \<and> stored_notifications (markAllAsRead ''p1'' (with_notifications
       [reminder ''1'' ''p1'' False 5, reminder ''2'' ''p2'' True 7, reminder ''3'' ''p1'' False 9]))
     = [reminder ''1'' ''p1'' True 5, reminder ''2'' ''p2'' True 7, reminder ''3'' ''p1'' True 9]
   \<and> list_all2 (\<lambda>old new. new = old
                \<or> (notification_id old = ''3'' \<and> \<not> read old \<and> new = old\<lparr>read := True\<rparr>))
       [reminder ''1'' ''p1'' False 5, reminder ''2'' ''p2'' True 7, reminder ''3'' ''p1'' False 9]
       [reminder ''1'' ''p1'' False 5, reminder ''2'' ''p2'' True 7, reminder ''3'' ''p1'' True 9]
   \<and> list_all2 (\<lambda>old new. new = old
                \<or> (userId old = ''p1'' \<and> \<not> read old \<and> new = old\<lparr>read := True\<rparr>))
       [reminder ''1'' ''p1'' False 5, reminder ''2'' ''p2'' True 7, reminder ''3'' ''p1'' False 9]
       [reminder ''1'' ''p1'' True 5, reminder ''2'' ''p2'' True 7, reminder ''3'' ''p1'' True 9]"
proof -
  let ?ns = "[reminder ''1'' ''p1'' False 5, reminder ''2'' ''p2'' True 7,
              reminder ''3'' ''p1'' False 9]"
  let ?st = "with_notifications ?ns"
  have before: "stored_notifications ?st = ?ns"
    by (simp add: with_notifications_def stored_notifications_def parse_or_empty_def)
  have one: "stored_notifications (markAsRead ''3'' ?st)
               = [reminder ''1'' ''p1'' False 5, reminder ''2'' ''p2'' True 7,
                  reminder ''3'' ''p1'' True 9]"
    by (simp add: markAsRead_def with_notifications_def stored_notifications_def
          parse_or_empty_def reminder_def)
  have every: "stored_notifications (markAllAsRead ''p1'' ?st)
               = [reminder ''1'' ''p1'' True 5, reminder ''2'' ''p2'' True 7,
                  reminder ''3'' ''p1'' True 9]"
    by (simp add: markAllAsRead_def with_notifications_def stored_notifications_def
          parse_or_empty_def reminder_def)
  show ?thesis
    using mark_read_frame [of "''3''" ?st "''p1''"]
    unfolding before one every by simp
qed

section \<open>The order of \<^verbatim>\<open>getNotifications\<close>\<close>

lemma mset_insert_by: "mset (insert_by cmp x ys) = add_mset x (mset ys)"
  by (induction ys) simp_all

lemma mset_Array_sort: "mset (Array_sort cmp xs) = mset xs"
  by (induction xs) (simp_all add: Array_sort_def mset_insert_by)

lemma set_insert_by: "set (insert_by cmp x ys) = insert x (set ys)"
  by (induction ys) auto

lemma sorted_insert_by:
  "sorted_wrt (\<lambda>a b. createdAt a \<ge> createdAt b) ys
   \<Longrightarrow> sorted_wrt (\<lambda>a b. createdAt a \<ge> createdAt b) (insert_by by_createdAt_desc x ys)"
  by (induction ys) (auto simp: by_createdAt_desc_def set_insert_by)

lemma sorted_Array_sort:
  "sorted_wrt (\<lambda>a b. createdAt a \<ge> createdAt b) (Array_sort by_createdAt_desc xs)"
  by (induction xs) (simp_all add: Array_sort_def sorted_insert_by)

text \<open>
  An element goes in front of the first element that is not more recent, so it passes
  only elements with a different timestamp: the records of one timestamp keep their order.
\<close>

lemma filter_insert_by:
  "filter (\<lambda>n. createdAt n = t) (insert_by by_createdAt_desc x ys) =
     (if createdAt x = t then x # filter (\<lambda>n. createdAt n = t) ys
      else filter (\<lambda>n. createdAt n = t) ys)"
  by (induction ys) (auto simp: by_createdAt_desc_def)

lemma filter_Array_sort:
  "filter (\<lambda>n. createdAt n = t) (Array_sort by_createdAt_desc xs)
     = filter (\<lambda>n. createdAt n = t) xs"
  by (induction xs) (simp_all add: Array_sort_def filter_insert_by)

lemma getNotifications_eq:
  "getNotifications st u =
     Array_sort by_createdAt_desc (filter (\<lambda>n. userId n = u) (stored_notifications st))"
  by (cases "notifications st")
     (simp_all add: getNotifications_def stored_notifications_def parse_or_empty_def
        Array_sort_def)

text \<open>
  C7. For every store and every user id, \<^verbatim>\<open>getNotifications\<close> returns the stored records
  of that user, each as often as it is stored and no other record; the result is ordered
  by \<^verbatim>\<open>createdAt\<close>, most recent first; and for every timestamp the records that carry it
  appear in the order in which they are stored.
\<close>

theorem getNotifications_sorted_stable:
  "mset (getNotifications st u) = mset (filter (\<lambda>n. userId n = u) (stored_notifications st))
   \<and> sorted_wrt (\<lambda>a b. createdAt a \<ge> createdAt b) (getNotifications st u)
   \<and> (\<forall>t. filter (\<lambda>n. createdAt n = t) (getNotifications st u)
            = filter (\<lambda>n. createdAt n = t)
                (filter (\<lambda>n. userId n = u) (stored_notifications st)))"
  unfolding getNotifications_eq
  by (simp only: mset_Array_sort sorted_Array_sort filter_Array_sort simp_thms)

theorem getNotifications_sorted_stable_witness:
  "getNotifications (with_notifications
       [reminder ''1'' ''p1'' False 5, reminder ''2'' ''p2'' True 7, reminder ''3'' ''p1'' False 9,
        reminder ''4'' ''p1'' True 5, reminder ''5'' ''p1'' False 9]) ''p1''
     = [reminder ''3'' ''p1'' False 9, reminder ''5'' ''p1'' False 9,
        reminder ''1'' ''p1'' False 5, reminder ''4'' ''p1'' True 5]
   \<and> filter (\<lambda>n. createdAt n = 5) (getNotifications (with_notifications
       [reminder ''1'' ''p1'' False 5, reminder ''2'' ''p2'' True 7, reminder ''3'' ''p1'' False 9,
        reminder ''4'' ''p1'' True 5, reminder ''5'' ''p1'' False 9]) ''p1'')
     = [reminder ''1'' ''p1'' False 5, reminder ''4'' ''p1'' True 5]"
proof -
  let ?st = "with_notifications
       [reminder ''1'' ''p1'' False 5, reminder ''2'' ''p2'' True 7, reminder ''3'' ''p1'' False 9,
        reminder ''4'' ''p1'' True 5, reminder ''5'' ''p1'' False 9]"
  have stored: "filter (\<lambda>n. createdAt n = 5)
                  (filter (\<lambda>n. userId n = ''p1'') (stored_notifications ?st))
                = [reminder ''1'' ''p1'' False 5, reminder ''4'' ''p1'' True 5]"
    by (simp add: with_notifications_def stored_notifications_def parse_or_empty_def
          reminder_def)
  have run: "getNotifications ?st ''p1''
               = [reminder ''3'' ''p1'' False 9, reminder ''5'' ''p1'' False 9,
                  reminder ''1'' ''p1'' False 5, reminder ''4'' ''p1'' True 5]"
    by (simp add: getNotifications_def with_notifications_def parse_or_empty_def
          Array_sort_def by_createdAt_desc_def reminder_def)
  have "filter (\<lambda>n. createdAt n = 5) (getNotifications ?st ''p1'')
          = filter (\<lambda>n. createdAt n = 5)
              (filter (\<lambda>n. userId n = ''p1'') (stored_notifications ?st))"
    using getNotifications_sorted_stable [of ?st "''p1''"] by simp
  with stored run show ?thesis
    by simp
qed

section \<open>Absent and corrupt payloads\<close>

lemma getNotifications_unreadable:
  "notifications st = Missing \<or> notifications st = Garbled \<Longrightarrow> getNotifications st u = []"
  by (auto simp: getNotifications_def parse_or_empty_def Array_sort_def)

lemma getGeneralStatistics_rethrows:
  "appointments st = Garbled \<Longrightarrow> getGeneralStatistics st = Inl SyntaxError"
  by (simp add: getGeneralStatistics_def parse_or_empty_def)

lemma getGeneralStatistics_rethrows_users:
  "appointments st \<noteq> Garbled \<Longrightarrow> registeredUsers st = Garbled
   \<Longrightarrow> getGeneralStatistics st = Inl SyntaxError"
  by (cases "appointments st") (simp_all add: getGeneralStatistics_def parse_or_empty_def)

lemma getGeneralStatistics_returns:
  "appointments st \<noteq> Garbled \<Longrightarrow> registeredUsers st \<noteq> Garbled
   \<Longrightarrow> \<exists>s. getGeneralStatistics st = Inr s
          \<and> totalAppointments s = length (stored_appointments st)
          \<and> appointmentsByMonth s = count_months Map.empty (stored_appointments st)
          \<and> statusPercentages s =
              \<lparr> confirmed = percentage
                    (length (filter (\<lambda>a. status a = Confirmed) (stored_appointments st)))
                    (length (stored_appointments st)),
                pending = percentage
                    (length (filter (\<lambda>a. status a = Pending) (stored_appointments st)))
                    (length (stored_appointments st)),
                cancelled = percentage
                    (length (filter (\<lambda>a. status a = Cancelled) (stored_appointments st)))
                    (length (stored_appointments st)) \<rparr>"
  by (cases "appointments st"; cases "registeredUsers st")
     (simp_all add: getGeneralStatistics_def stored_appointments_def parse_or_empty_def Let_def)

lemma getGeneralStatistics_not_NotFound: "getGeneralStatistics st \<noteq> Inl NotFoundError"
  by (cases "appointments st"; cases "registeredUsers st")
     (simp_all add: getGeneralStatistics_def parse_or_empty_def Let_def)

text \<open>
  C3, as the claim states it, fails: with a corrupt appointments payload
  \<^verbatim>\<open>getGeneralStatistics\<close> does not go on with the empty sequence, it throws the parse error
  again.
\<close>

theorem getGeneralStatistics_corrupt_counterexample:
  "getGeneralStatistics
     \<lparr> appointments = Garbled, notifications = Missing, registeredUsers = Missing \<rparr>
   = Inl SyntaxError"
  by (simp add: getGeneralStatistics_def parse_or_empty_def)

text \<open>
  C3, amended. An absent key is read as the empty sequence by \<^verbatim>\<open>getNotifications\<close> and by
  \<^verbatim>\<open>getGeneralStatistics\<close> (which then returns the statistics of no appointments, when
  the registered users it also parses are readable), and neither ever fails with a
  not-found error. A corrupt payload is read as the empty sequence by
  \<^verbatim>\<open>getNotifications\<close>; \<^verbatim>\<open>getGeneralStatistics\<close> fails with the parse error instead.
\<close>

theorem load_absent_or_corrupt:
  "(notifications st = Missing \<or> notifications st = Garbled \<longrightarrow> getNotifications st u = [])
   \<and> (appointments st = Missing \<and> registeredUsers st \<noteq> Garbled
        \<longrightarrow> (\<exists>s. getGeneralStatistics st = Inr s \<and> totalAppointments s = 0))
   \<and> (appointments st = Garbled \<longrightarrow> getGeneralStatistics st = Inl SyntaxError)
   \<and> getGeneralStatistics st \<noteq> Inl NotFoundError"
proof -
  have absent: "appointments st = Missing \<and> registeredUsers st \<noteq> Garbled
        \<longrightarrow> (\<exists>s. getGeneralStatistics st = Inr s \<and> totalAppointments s = 0)"
  proof
    assume h: "appointments st = Missing \<and> registeredUsers st \<noteq> Garbled"
    then have "stored_appointments st = []"
      by (simp add: stored_appointments_def parse_or_empty_def)
    with h getGeneralStatistics_returns [of st]
    show "\<exists>s. getGeneralStatistics st = Inr s \<and> totalAppointments s = 0"
      by auto
  qed
  show ?thesis
    using absent getNotifications_unreadable [of st u] getGeneralStatistics_rethrows [of st]
      getGeneralStatistics_not_NotFound [of st]
    by blast
qed

theorem load_absent_or_corrupt_witness:
  "getNotifications empty_storage ''p1'' = []
   \<and> getNotifications (empty_storage\<lparr>notifications := Garbled\<rparr>) ''p1'' = []
   \<and> (\<exists>s. getGeneralStatistics empty_storage = Inr s \<and> totalAppointments s = 0)
   \<and> getGeneralStatistics (empty_storage\<lparr>appointments := Garbled\<rparr>) = Inl SyntaxError"
proof -
  have a: "notifications empty_storage = Missing"
    and b: "notifications (empty_storage\<lparr>notifications := Garbled\<rparr>) = Garbled"
    and c: "appointments empty_storage = Missing \<and> registeredUsers empty_storage \<noteq> Garbled"
    and d: "appointments (empty_storage\<lparr>appointments := Garbled\<rparr>) = Garbled"
    by (simp_all add: empty_storage_def)
  show ?thesis
    using a b c d
      load_absent_or_corrupt [of empty_storage "''p1''"]
      load_absent_or_corrupt [of "empty_storage\<lparr>notifications := Garbled\<rparr>" "''p1''"]
      load_absent_or_corrupt [of "empty_storage\<lparr>appointments := Garbled\<rparr>" "''p1''"]
    by simp
qed

section \<open>The statistics\<close>

lemma monthKey_slash: "CHR ''/'' \<in> set (monthKey a)"
  by (simp add: monthKey_def Let_def)

lemma slash_not_inherited:
  "CHR ''/'' \<in> set k \<Longrightarrow> k \<noteq> ''__proto__'' \<and> k \<notin> set object_prototype_names"
  by (auto simp: object_prototype_names_def)

lemma increment_same:
  "CHR ''/'' \<in> set key
   \<Longrightarrow> increment counts key key
       = Some (case counts key of
                 None \<Rightarrow> Count 1
               | Some (Count c) \<Rightarrow> Count (c + 1)
               | Some Text \<Rightarrow> Text)"
  using slash_not_inherited [of key]
  by (simp add: increment_def split: option.splits slot.splits)

lemma increment_other: "k \<noteq> key \<Longrightarrow> increment counts key k = counts k"
  by (cases "counts key") (auto simp: increment_def split: slot.splits)

lemma count_months_lookup:
  "count_months counts apps k =
     (case counts k of
        Some (Count c) \<Rightarrow> Some (Count (c + length (filter (\<lambda>a. monthKey a = k) apps)))
      | Some Text \<Rightarrow> Some Text
      | None \<Rightarrow>
          if k \<in> monthKey ` set apps
          then Some (Count (length (filter (\<lambda>a. monthKey a = k) apps)))
          else None)"
proof (induction apps arbitrary: counts)
  case Nil
  show ?case by (simp split: option.splits slot.splits)
next
  case (Cons a apps)
  show ?case
  proof (cases "monthKey a = k")
    case True
    then have "CHR ''/'' \<in> set k"
      using monthKey_slash [of a] by simp
    then have "increment counts k k
       = Some (case counts k of
                 None \<Rightarrow> Count 1
               | Some (Count c) \<Rightarrow> Count (c + 1)
               | Some Text \<Rightarrow> Text)"
      by (rule increment_same)
    with True show ?thesis
      by (simp add: Cons.IH split: option.splits slot.splits)
  next
    case False
    then have "increment counts (monthKey a) k = counts k"
      by (simp add: increment_other)
    with False show ?thesis
      by (simp add: Cons.IH split: option.splits slot.splits)
  qed
qed

text \<open>
  The loop over the months never skips an appointment: every key holds the number of
  appointments whose date gives that key, whatever the date looks like.
\<close>

lemma count_months_total:
  "count_months Map.empty apps k =
     (if k \<in> monthKey ` set apps
      then Some (Count (length (filter (\<lambda>a. monthKey a = k) apps)))
      else None)"
  by (simp add: count_months_lookup)

lemma monthKey_without_slash: "CHR ''/'' \<notin> set (date a) \<Longrightarrow> monthKey a = ''undefined/undefined''"
proof -
  have one: "CHR ''/'' \<notin> set s \<Longrightarrow> split_slash s = [s]" for s
    by (induction s) auto
  assume "CHR ''/'' \<notin> set (date a)"
  then show ?thesis
    by (simp add: monthKey_def one template_def eval_nat_numeral)
qed

text \<open>
  C5, at a failing input. The stored appointments are one with the date \<^verbatim>\<open>abc\<close>, which
  does not split into three components, and one with the date \<^verbatim>\<open>12/03/2026\<close>. The call
  returns; the second appointment is counted under \<^verbatim>\<open>03/2026\<close>; the first is not skipped
  but counted under the key \<^verbatim>\<open>undefined/undefined\<close>.
\<close>

theorem unsplittable_date_is_counted:
  "\<not> isl (getGeneralStatistics
            (with_appointments [visit ''1'' ''abc'' Pending, visit ''2'' ''12/03/2026'' Pending]))
   \<and> appointmentsByMonth (projr (getGeneralStatistics
            (with_appointments [visit ''1'' ''abc'' Pending, visit ''2'' ''12/03/2026'' Pending])))
         ''undefined/undefined'' = Some (Count 1)
   \<and> appointmentsByMonth (projr (getGeneralStatistics
            (with_appointments [visit ''1'' ''abc'' Pending, visit ''2'' ''12/03/2026'' Pending])))
         ''03/2026'' = Some (Count 1)"
proof -
  have k1: "monthKey (visit ''1'' ''abc'' Pending) = ''undefined/undefined''"
    by (simp add: monthKey_def visit_def template_def eval_nat_numeral)
  have k2: "monthKey (visit ''2'' ''12/03/2026'' Pending) = ''03/2026''"
    by (simp add: monthKey_def visit_def template_def eval_nat_numeral)
  show ?thesis
    by (simp add: getGeneralStatistics_def with_appointments_def empty_storage_def
          parse_or_empty_def Let_def k1 k2 increment_def object_prototype_names_def)
qed

text \<open>
  The percentages of the claim in double arithmetic: 3/10 and 4/10 are rounded, and the
  products with 100 round to exactly 30 and 40. One third of the appointments gives
  33.33333333333333, the double below 100/3.
\<close>

lemma percentage_of_ten:
  "number_value (percentage 3 10) = Some 30 \<and> number_value (percentage 4 10) = Some 40"
  by (simp add: percentage_def of_length_def round_ratio_def bits.simps Let_def
        number_value_def)

lemma percentage_one_third:
  "number_value (percentage 1 3) = Some (2345624805922133 / 70368744177664)"
  by (simp add: percentage_def of_length_def round_ratio_def bits.simps Let_def
        number_value_def)

text \<open>
  With no appointment the guard returns the literal 0; the quotient 0/0, which is
  \<^verbatim>\<open>NaN\<close>, is not formed.
\<close>

lemma percentage_of_none:
  "percentage 0 0 = Finite 0 0 \<and> number_value (percentage 0 0) = Some 0
   \<and> js_times (js_divide (of_length 0) (of_length 0)) (Finite 100 0) = NaN"
  by (simp add: percentage_def of_length_def number_value_def)

text \<open>
  C8, as the claim states it, fails: the stored appointments are ten, three confirmed,
  four pending and three cancelled, and the payload of the registered users does not
  parse. \<^verbatim>\<open>getGeneralStatistics\<close> parses that payload too and throws, so it returns no
  percentages.
\<close>

theorem statusPercentages_unreadable_users_counterexample:
  "appointments ten_visits_unreadable_users = Encoded ten_visits
   \<and> map status ten_visits
       = [Confirmed, Pending, Cancelled, Pending, Confirmed, Cancelled, Pending, Confirmed,
          Pending, Cancelled]
   \<and> getGeneralStatistics ten_visits_unreadable_users = Inl SyntaxError"
  by (simp add: ten_visits_unreadable_users_def with_appointments_def empty_storage_def
        getGeneralStatistics_def parse_or_empty_def ten_visits_def visit_def)

text \<open>
  C8, amended. Let the payload of the registered users be absent or readable. When the
  stored appointments are ten records, three of them confirmed, four pending and three
  cancelled, \<^verbatim>\<open>getGeneralStatistics\<close> returns the percentages 30, 40 and 30. When there
  is no stored appointment it returns the number 0 three times, and not the \<^verbatim>\<open>NaN\<close> that
  the quotient 0/0 would be. When the payload of the registered users does not parse,
  the call fails with the parse error whatever the appointments are.
\<close>

theorem statusPercentages_of_ten_and_of_none:
  "(appointments st = Encoded apps \<and> registeredUsers st \<noteq> Garbled
      \<and> length apps = 10
      \<and> length (filter (\<lambda>a. status a = Confirmed) apps) = 3
      \<and> length (filter (\<lambda>a. status a = Pending) apps) = 4
      \<and> length (filter (\<lambda>a. status a = Cancelled) apps) = 3
     \<longrightarrow> (\<exists>s. getGeneralStatistics st = Inr s
              \<and> number_value (confirmed (statusPercentages s)) = Some 30
              \<and> number_value (pending (statusPercentages s)) = Some 40
              \<and> number_value (cancelled (statusPercentages s)) = Some 30))
   \<and> ((appointments st = Missing \<or> appointments st = Encoded [])
        \<and> registeredUsers st \<noteq> Garbled
     \<longrightarrow> (\<exists>s. getGeneralStatistics st = Inr s
              \<and> statusPercentages s
                  = \<lparr> confirmed = Finite 0 0, pending = Finite 0 0, cancelled = Finite 0 0 \<rparr>
              \<and> number_value (Finite 0 0) = Some 0
              \<and> js_times (js_divide (of_length 0) (of_length 0)) (Finite 100 0) = NaN))
   \<and> (appointments st \<noteq> Garbled \<and> registeredUsers st = Garbled
     \<longrightarrow> getGeneralStatistics st = Inl SyntaxError)"
proof (intro conjI impI)
  assume h: "appointments st = Encoded apps \<and> registeredUsers st \<noteq> Garbled
      \<and> length apps = 10
      \<and> length (filter (\<lambda>a. status a = Confirmed) apps) = 3
      \<and> length (filter (\<lambda>a. status a = Pending) apps) = 4
      \<and> length (filter (\<lambda>a. status a = Cancelled) apps) = 3"
  then have stored: "stored_appointments st = apps"
    by (simp add: stored_appointments_def parse_or_empty_def)
  from h have "appointments st \<noteq> Garbled" and "registeredUsers st \<noteq> Garbled"
    by simp_all
  from getGeneralStatistics_returns [OF this] h
  show "\<exists>s. getGeneralStatistics st = Inr s
          \<and> number_value (confirmed (statusPercentages s)) = Some 30
          \<and> number_value (pending (statusPercentages s)) = Some 40
          \<and> number_value (cancelled (statusPercentages s)) = Some 30"
    unfolding stored using percentage_of_ten by auto
next
  assume h: "(appointments st = Missing \<or> appointments st = Encoded [])
        \<and> registeredUsers st \<noteq> Garbled"
  then have stored: "stored_appointments st = []"
    by (auto simp: stored_appointments_def parse_or_empty_def)
  from h have "appointments st \<noteq> Garbled" and "registeredUsers st \<noteq> Garbled"
    by auto
  from getGeneralStatistics_returns [OF this]
  show "\<exists>s. getGeneralStatistics st = Inr s
          \<and> statusPercentages s
              = \<lparr> confirmed = Finite 0 0, pending = Finite 0 0, cancelled = Finite 0 0 \<rparr>
          \<and> number_value (Finite 0 0) = Some 0
          \<and> js_times (js_divide (of_length 0) (of_length 0)) (Finite 100 0) = NaN"
    unfolding stored using percentage_of_none by auto
next
  assume "appointments st \<noteq> Garbled \<and> registeredUsers st = Garbled"
  then show "getGeneralStatistics st = Inl SyntaxError"
    by (simp add: getGeneralStatistics_rethrows_users)
qed

theorem statusPercentages_of_ten_and_of_none_witness:
  "length ten_visits = 10
   \<and> length (filter (\<lambda>a. status a = Confirmed) ten_visits) = 3
   \<and> length (filter (\<lambda>a. status a = Pending) ten_visits) = 4
   \<and> length (filter (\<lambda>a. status a = Cancelled) ten_visits) = 3
   \<and> (\<exists>s. getGeneralStatistics (with_appointments ten_visits) = Inr s
          \<and> number_value (confirmed (statusPercentages s)) = Some 30
          \<and> number_value (pending (statusPercentages s)) = Some 40
          \<and> number_value (cancelled (statusPercentages s)) = Some 30)
   \<and> (\<exists>s. getGeneralStatistics empty_storage = Inr s
          \<and> statusPercentages s
              = \<lparr> confirmed = Finite 0 0, pending = Finite 0 0, cancelled = Finite 0 0 \<rparr>)
   \<and> getGeneralStatistics ten_visits_unreadable_users = Inl SyntaxError"
proof -
  have counts: "length ten_visits = 10
      \<and> length (filter (\<lambda>a. status a = Confirmed) ten_visits) = 3
      \<and> length (filter (\<lambda>a. status a = Pending) ten_visits) = 4
      \<and> length (filter (\<lambda>a. status a = Cancelled) ten_visits) = 3"
    by (simp add: ten_visits_def visit_def)
  have full: "appointments (with_appointments ten_visits) = Encoded ten_visits
      \<and> registeredUsers (with_appointments ten_visits) \<noteq> Garbled"
    by (simp add: with_appointments_def empty_storage_def)
  have none: "(appointments empty_storage = Missing \<or> appointments empty_storage = Encoded [])
      \<and> registeredUsers empty_storage \<noteq> Garbled"
    by (simp add: empty_storage_def)
  have bad: "appointments ten_visits_unreadable_users \<noteq> Garbled
      \<and> registeredUsers ten_visits_unreadable_users = Garbled"
    by (simp add: ten_visits_unreadable_users_def with_appointments_def empty_storage_def)
  show ?thesis
    using counts full none bad
      statusPercentages_of_ten_and_of_none [of "with_appointments ten_visits" ten_visits]
      statusPercentages_of_ten_and_of_none [of empty_storage "[]"]
      statusPercentages_of_ten_and_of_none [of ten_visits_unreadable_users "[]"]
    by auto
qed

section \<open>Creating an appointment\<close>

lemma parse_stored_appointments:
  "appointments st \<noteq> Garbled \<Longrightarrow> parse_or_empty (appointments st) = Inr (stored_appointments st)"
  by (cases "appointments st") (simp_all add: stored_appointments_def parse_or_empty_def)

lemma parse_stored_notifications:
  "notifications st \<noteq> Garbled
   \<Longrightarrow> parse_or_empty (notifications st) = Inr (stored_notifications st)"
  by (cases "notifications st") (simp_all add: stored_notifications_def parse_or_empty_def)

lemma createNotification_appends:
  "notifications st \<noteq> Garbled
   \<Longrightarrow> createNotification t_id t_created d st
       = st\<lparr>notifications := Encoded (stored_notifications st @ [newNotification t_id t_created d])\<rparr>"
  by (simp add: createNotification_def parse_stored_notifications)

lemma createNotification_gives_up:
  "notifications st = Garbled \<Longrightarrow> createNotification t_id t_created d st = st"
  by (simp add: createNotification_def parse_or_empty_def)

lemma createNotification_appointments:
  "appointments (createNotification t_id t_created d st) = appointments st"
  by (cases "notifications st") (simp_all add: createNotification_def parse_or_empty_def)

lemma stored_appointments_Encoded:
  "appointments st = Encoded xs \<Longrightarrow> stored_appointments st = xs"
  by (simp add: stored_appointments_def parse_or_empty_def)

lemma stored_notifications_Encoded:
  "notifications st = Encoded xs \<Longrightarrow> stored_notifications st = xs"
  by (simp add: stored_notifications_def parse_or_empty_def)

lemma stored_appointments_cong:
  "appointments st = appointments st' \<Longrightarrow> stored_appointments st = stored_appointments st'"
  by (simp add: stored_appointments_def)

lemma stored_notifications_cong:
  "notifications st = notifications st' \<Longrightarrow> stored_notifications st = stored_notifications st'"
  by (simp add: stored_notifications_def)

lemma create_rejects:
  "dateText = [] \<or> selectedTime = [] \<or> selectedDoctor = None
   \<Longrightarrow> handleCreateAppointment t t_id t_created usr dateText selectedTime selectedDoctor st
       = Inl (ValidationError required_fields_message)"
  by (cases selectedDoctor) (auto simp: handleCreateAppointment_def)

lemma create_accepts:
  "dateText \<noteq> [] \<Longrightarrow> selectedTime \<noteq> [] \<Longrightarrow> appointments st \<noteq> Garbled
   \<Longrightarrow> handleCreateAppointment t t_id t_created usr dateText selectedTime (Some doc) st
       = Inr (notifyNewAppointment t_id t_created (doctor_id doc)
                (newAppointment t usr dateText selectedTime doc)
                (st\<lparr>appointments :=
                      Encoded (stored_appointments st
                               @ [newAppointment t usr dateText selectedTime doc])\<rparr>))"
  by (simp add: handleCreateAppointment_def parse_stored_appointments Let_def)

lemma create_unreadable:
  "dateText \<noteq> [] \<Longrightarrow> selectedTime \<noteq> [] \<Longrightarrow> appointments st = Garbled
   \<Longrightarrow> handleCreateAppointment t t_id t_created usr dateText selectedTime (Some doc) st
       = Inl (CaughtError ''Erro ao agendar consulta. Tente novamente.'')"
  by (simp add: handleCreateAppointment_def parse_or_empty_def)

lemma create_Inr:
  assumes "handleCreateAppointment t t_id t_created usr dateText selectedTime selectedDoctor st
             = Inr st'"
  shows "dateText \<noteq> [] \<and> selectedTime \<noteq> [] \<and> appointments st \<noteq> Garbled
         \<and> (\<exists>doc. selectedDoctor = Some doc
               \<and> st' = notifyNewAppointment t_id t_created (doctor_id doc)
                          (newAppointment t usr dateText selectedTime doc)
                          (st\<lparr>appointments :=
                                Encoded (stored_appointments st
                                         @ [newAppointment t usr dateText selectedTime doc])\<rparr>))"
proof -
  have fields: "\<not> (dateText = [] \<or> selectedTime = [] \<or> selectedDoctor = None)"
    using assms create_rejects [of dateText selectedTime selectedDoctor t t_id t_created usr st]
    by auto
  then obtain doc where doc: "selectedDoctor = Some doc"
    by auto
  have readable: "appointments st \<noteq> Garbled"
    using assms fields doc create_unreadable [of dateText selectedTime st t t_id t_created usr doc]
    by auto
  show ?thesis
    using assms fields doc readable
      create_accepts [of dateText selectedTime st t t_id t_created usr doc]
    by auto
qed

lemma stored_after_notify:
  "stored_appointments (notifyNewAppointment t_id t_created d a st) = stored_appointments st"
  unfolding notifyNewAppointment_def
  by (rule stored_appointments_cong) (rule createNotification_appointments)

lemma create_appends:
  assumes "handleCreateAppointment t t_id t_created usr dateText selectedTime selectedDoctor st
             = Inr st'"
  shows "\<exists>doc. selectedDoctor = Some doc
           \<and> stored_appointments st'
               = stored_appointments st @ [newAppointment t usr dateText selectedTime doc]"
proof -
  from create_Inr [OF assms] obtain doc where
    doc: "selectedDoctor = Some doc"
    and st': "st' = notifyNewAppointment t_id t_created (doctor_id doc)
                      (newAppointment t usr dateText selectedTime doc)
                      (st\<lparr>appointments :=
                            Encoded (stored_appointments st
                                     @ [newAppointment t usr dateText selectedTime doc])\<rparr>)"
    by blast
  have "stored_appointments st'
          = stored_appointments st @ [newAppointment t usr dateText selectedTime doc]"
    unfolding st' stored_after_notify
    by (simp add: stored_appointments_def parse_or_empty_def)
  with doc show ?thesis
    by blast
qed

lemma validateDate_nonempty: "validateDate mkDate today maxDate dateText \<Longrightarrow> dateText \<noteq> []"
  by (auto simp: validateDate_def match_date_def)

lemma handleSubmit_Inr:
  "handleSubmit mkDate today maxDate selectedDoctor dateInput selectedTime description = Inr p
   \<Longrightarrow> selectedDoctor \<noteq> [] \<and> selectedTime \<noteq> [] \<and> description \<noteq> []
       \<and> validateDate mkDate today maxDate dateInput"
  by (auto simp: handleSubmit_def split: if_splits)

lemma generateTimeSlots_list:
  "generateTimeSlots =
     [''09:00'', ''09:30'', ''10:00'', ''10:30'', ''11:00'', ''11:30'',
      ''12:00'', ''12:30'', ''13:00'', ''13:30'', ''14:00'', ''14:30'',
      ''15:00'', ''15:30'', ''16:00'', ''16:30'', ''17:00'', ''17:30'']"
  by (simp add: generateTimeSlots_def slots_from.simps padStart_def toString.simps digit_def)

lemma example_date_valid:
  "validateDate example_calendar example_today example_maxDate ''10/12/2026''"
  by (simp add: validateDate_def match_date_def is_digit_def parseInt_def
        example_calendar_def example_today_def example_maxDate_def)

lemma create_persists:
  assumes "dateText \<noteq> []" and "selectedTime \<noteq> []" and "appointments st \<noteq> Garbled"
  shows "\<exists>st'. handleCreateAppointment t t_id t_created usr dateText selectedTime (Some doc) st
                 = Inr st'
             \<and> stored_appointments st'
                 = stored_appointments st @ [newAppointment t usr dateText selectedTime doc]"
proof -
  let ?st' = "notifyNewAppointment t_id t_created (doctor_id doc)
                (newAppointment t usr dateText selectedTime doc)
                (st\<lparr>appointments :=
                      Encoded (stored_appointments st
                               @ [newAppointment t usr dateText selectedTime doc])\<rparr>)"
  have run: "handleCreateAppointment t t_id t_created usr dateText selectedTime (Some doc) st
               = Inr ?st'"
    by (rule create_accepts [OF assms])
  from create_appends [OF run] run show ?thesis
    by auto
qed

lemma stored_empty_storage:
  "stored_appointments empty_storage = [] \<and> appointments empty_storage \<noteq> Garbled
   \<and> stored_notifications empty_storage = [] \<and> notifications empty_storage \<noteq> Garbled"
  by (simp add: stored_appointments_def stored_notifications_def parse_or_empty_def
        empty_storage_def)

lemma form_refuses_unmatched_date:
  "match_date dateInput = None
   \<Longrightarrow> isl (handleSubmit mkDate today maxDate selectedDoctor dateInput selectedTime description)"
  by (simp add: handleSubmit_def validateDate_def)

text \<open>
  The only validation of \<^verbatim>\<open>handleCreateAppointment\<close>: it fails with the validation message,
  writing nothing, whenever the date text, the selected time or the selected doctor is
  empty, and whenever it persists an appointment all three are present.
\<close>

lemma create_checks_required_fields:
  "(dateText = [] \<or> selectedTime = [] \<or> selectedDoctor = None
      \<longrightarrow> handleCreateAppointment t t_id t_created usr dateText selectedTime selectedDoctor st
            = Inl (ValidationError required_fields_message))
   \<and> (handleCreateAppointment t t_id t_created usr dateText selectedTime selectedDoctor st
         = Inr st'
      \<longrightarrow> dateText \<noteq> [] \<and> selectedTime \<noteq> []
          \<and> (\<exists>doc. selectedDoctor = Some doc
                \<and> stored_appointments st'
                    = stored_appointments st
                      @ [newAppointment t usr dateText selectedTime doc]))"
proof (intro conjI impI)
  assume "dateText = [] \<or> selectedTime = [] \<or> selectedDoctor = None"
  then show "handleCreateAppointment t t_id t_created usr dateText selectedTime selectedDoctor st
               = Inl (ValidationError required_fields_message)"
    by (rule create_rejects)
next
  assume ok: "handleCreateAppointment t t_id t_created usr dateText selectedTime selectedDoctor st
                = Inr st'"
  show "dateText \<noteq> []" and "selectedTime \<noteq> []"
    using create_Inr [OF ok] by simp_all
  show "\<exists>doc. selectedDoctor = Some doc
          \<and> stored_appointments st'
              = stored_appointments st @ [newAppointment t usr dateText selectedTime doc]"
    by (rule create_appends [OF ok])
qed

subsection \<open>What the screen can hold\<close>

lemma reachable_time:
  "reachable s \<Longrightarrow> screen_time s = [] \<or> screen_time s \<in> set generateTimeSlots"
  by (induction rule: reachable.induct) (simp_all add: initial_screen_def)

lemma reachable_doctor:
  "reachable s \<Longrightarrow> screen_doctor s = None \<or> (\<exists>d \<in> set availableDoctors. screen_doctor s = Some d)"
  by (induction rule: reachable.induct) (simp_all add: initial_screen_def)

lemma slot_0900: "''09:00'' \<in> set generateTimeSlots"
  unfolding generateTimeSlots_list by simp

lemma reachable_screen:
  assumes "slot_time \<in> set generateTimeSlots" and "d \<in> set availableDoctors"
  shows "reachable \<lparr> screen_date = typed, screen_time = slot_time, screen_doctor = Some d \<rparr>"
proof -
  have "reachable (initial_screen\<lparr>screen_date := typed\<rparr>)"
    by (rule onChangeText) (rule mounted)
  then have "reachable (initial_screen\<lparr>screen_date := typed, screen_time := slot_time\<rparr>)"
    using assms(1) by (rule onSelectTime)
  then have "reachable (initial_screen\<lparr>screen_date := typed, screen_time := slot_time,
                                      screen_doctor := Some d\<rparr>)"
    using assms(2) by (rule onSelectDoctor)
  then show ?thesis
    by (simp add: initial_screen_def)
qed

lemma reachable_examples: "reachable screen_abc \<and> reachable screen_booking"
  unfolding screen_abc_def screen_booking_def
  using reachable_screen [OF slot_0900, of dr_silva]
  by (simp add: availableDoctors_def)

text \<open>
  C2, at a failing input. The patient types \<^verbatim>\<open>abc\<close> into the date field, presses the
  card \<^verbatim>\<open>09:00\<close>, chooses the first doctor and presses \<^verbatim>\<open>Agendar\<close>, on an empty store.
  The text does not match DD/MM/YYYY, \<^verbatim>\<open>validateDate\<close> refuses it for every calendar
  and the form of \<^verbatim>\<open>AppointmentForm.tsx\<close> does not submit it; \<^verbatim>\<open>handleCreateAppointment\<close>
  does not fail, and the appointment is persisted with the date \<^verbatim>\<open>abc\<close>.
\<close>

theorem unvalidated_date_is_persisted:
  "reachable screen_abc
   \<and> match_date ''abc'' = None
   \<and> \<not> validateDate mkDate today maxDate ''abc''
   \<and> isl (handleSubmit mkDate today maxDate ''1'' ''abc'' ''09:00'' ''Consulta de rotina'')
   \<and> \<not> isl (press_Agendar 1700000000000 1700000000001 1700000000002 (Some patient_ana)
              screen_abc empty_storage)
   \<and> map date (stored_appointments (projr
          (press_Agendar 1700000000000 1700000000001 1700000000002 (Some patient_ana)
              screen_abc empty_storage)))
       = [''abc'']"
proof -
  obtain st' where run: "handleCreateAppointment 1700000000000 1700000000001 1700000000002
               (Some patient_ana) ''abc'' ''09:00'' (Some dr_silva) empty_storage = Inr st'"
    and stored: "stored_appointments st'
                   = stored_appointments empty_storage
                     @ [newAppointment 1700000000000 (Some patient_ana) ''abc'' ''09:00''
                          dr_silva]"
    using create_persists [of "''abc''" "''09:00''" empty_storage 1700000000000
        1700000000001 1700000000002 "Some patient_ana" dr_silva] stored_empty_storage
    by auto
  have pressed: "press_Agendar 1700000000000 1700000000001 1700000000002 (Some patient_ana)
                   screen_abc empty_storage = Inr st'"
    unfolding press_Agendar_def using run by (simp add: screen_abc_def)
  have unmatched: "match_date ''abc'' = None"
    by (simp add: match_date_def)
  then have refused: "\<not> validateDate mkDate today maxDate ''abc''"
    by (simp add: validateDate_def)
  have form: "isl (handleSubmit mkDate today maxDate ''1'' ''abc'' ''09:00''
                     ''Consulta de rotina'')"
    using unmatched by (rule form_refuses_unmatched_date)
  show ?thesis
    unfolding pressed using reachable_examples unmatched refused form stored stored_empty_storage
    by (simp add: newAppointment_def)
qed

text \<open>
  C6. The generated grid is exactly the times HH:00 and HH:30 for the hours 9 to 17, so it
  holds \<^verbatim>\<open>09:00\<close> and \<^verbatim>\<open>17:30\<close> and neither \<^verbatim>\<open>08:30\<close> nor \<^verbatim>\<open>18:00\<close>. The screen never
  holds \<^verbatim>\<open>08:30\<close> or \<^verbatim>\<open>18:00\<close>; whenever pressing \<^verbatim>\<open>Agendar\<close> persists an appointment, its
  time is a time of the grid; and with a time that is not in the grid the press is
  rejected with the validation message. With \<^verbatim>\<open>09:00\<close> or \<^verbatim>\<open>17:30\<close> selected, a date text
  and a doctor, the press is never rejected by the validation, and on a readable
  collection the appointment is persisted with that time.
\<close>

theorem time_slot_grid:
  "generateTimeSlots =
     [''09:00'', ''09:30'', ''10:00'', ''10:30'', ''11:00'', ''11:30'',
      ''12:00'', ''12:30'', ''13:00'', ''13:30'', ''14:00'', ''14:30'',
      ''15:00'', ''15:30'', ''16:00'', ''16:30'', ''17:00'', ''17:30'']
   \<and> ''09:00'' \<in> set generateTimeSlots \<and> ''17:30'' \<in> set generateTimeSlots
   \<and> ''08:30'' \<notin> set generateTimeSlots \<and> ''18:00'' \<notin> set generateTimeSlots
   \<and> (reachable s \<longrightarrow> screen_time s \<noteq> ''08:30'' \<and> screen_time s \<noteq> ''18:00'')
   \<and> (reachable s \<and> press_Agendar t t_id t_created usr s st = Inr st'
        \<longrightarrow> screen_time s \<in> set generateTimeSlots
            \<and> (\<exists>a. stored_appointments st' = stored_appointments st @ [a]
                   \<and> time a = screen_time s))
   \<and> (reachable s \<and> screen_time s \<notin> set generateTimeSlots
        \<longrightarrow> press_Agendar t t_id t_created usr s st
              = Inl (ValidationError required_fields_message))
   \<and> (reachable s \<and> (screen_time s = ''09:00'' \<or> screen_time s = ''17:30'')
          \<and> screen_date s \<noteq> [] \<and> screen_doctor s \<noteq> None
        \<longrightarrow> (\<forall>m. press_Agendar t t_id t_created usr s st \<noteq> Inl (ValidationError m))
            \<and> (appointments st \<noteq> Garbled
                \<longrightarrow> (\<exists>st'' a. press_Agendar t t_id t_created usr s st = Inr st''
                        \<and> stored_appointments st'' = stored_appointments st @ [a]
                        \<and> time a = screen_time s)))"
proof (intro conjI impI)
  show "generateTimeSlots =
     [''09:00'', ''09:30'', ''10:00'', ''10:30'', ''11:00'', ''11:30'',
      ''12:00'', ''12:30'', ''13:00'', ''13:30'', ''14:00'', ''14:30'',
      ''15:00'', ''15:30'', ''16:00'', ''16:30'', ''17:00'', ''17:30'']"
    by (rule generateTimeSlots_list)
  show "''09:00'' \<in> set generateTimeSlots" and "''17:30'' \<in> set generateTimeSlots"
    and "''08:30'' \<notin> set generateTimeSlots" and "''18:00'' \<notin> set generateTimeSlots"
    unfolding generateTimeSlots_list by simp_all
next
  assume "reachable s"
  from reachable_time [OF this]
  show "screen_time s \<noteq> ''08:30''" and "screen_time s \<noteq> ''18:00''"
    unfolding generateTimeSlots_list by auto
next
  assume h: "reachable s \<and> press_Agendar t t_id t_created usr s st = Inr st'"
  then have run: "handleCreateAppointment t t_id t_created usr (screen_date s) (screen_time s)
                    (screen_doctor s) st = Inr st'"
    by (simp add: press_Agendar_def)
  from create_Inr [OF run] have "screen_time s \<noteq> []"
    by simp
  with h reachable_time [of s] show "screen_time s \<in> set generateTimeSlots"
    by auto
  from create_appends [OF run]
  show "\<exists>a. stored_appointments st' = stored_appointments st @ [a] \<and> time a = screen_time s"
    by (auto simp: newAppointment_def)
next
  assume "reachable s \<and> screen_time s \<notin> set generateTimeSlots"
  with reachable_time [of s] have "screen_time s = []"
    by auto
  then show "press_Agendar t t_id t_created usr s st
               = Inl (ValidationError required_fields_message)"
    unfolding press_Agendar_def by (simp add: create_rejects)
next
  assume h: "reachable s \<and> (screen_time s = ''09:00'' \<or> screen_time s = ''17:30'')
          \<and> screen_date s \<noteq> [] \<and> screen_doctor s \<noteq> None"
  then obtain doc where doc: "screen_doctor s = Some doc"
    by auto
  from h have d: "screen_date s \<noteq> []" and tm: "screen_time s \<noteq> []"
    by auto
  show "\<forall>m. press_Agendar t t_id t_created usr s st \<noteq> Inl (ValidationError m)"
  proof (cases "appointments st = Garbled")
    case True
    from create_unreadable [OF d tm True] show ?thesis
      unfolding press_Agendar_def doc by simp
  next
    case False
    from create_accepts [OF d tm False] show ?thesis
      unfolding press_Agendar_def doc by simp
  qed
  assume rd: "appointments st \<noteq> Garbled"
  from create_persists [OF d tm rd, of t t_id t_created usr doc]
  show "\<exists>st'' a. press_Agendar t t_id t_created usr s st = Inr st''
           \<and> stored_appointments st'' = stored_appointments st @ [a]
           \<and> time a = screen_time s"
    unfolding press_Agendar_def doc by (auto simp: newAppointment_def)
qed

theorem time_slot_grid_witness:
  "reachable screen_booking
   \<and> screen_time screen_booking = ''09:00''
   \<and> (\<exists>st'' a. press_Agendar 1700000000000 1700000000001 1700000000002 (Some patient_ana)
                  screen_booking empty_storage = Inr st''
              \<and> stored_appointments st'' = stored_appointments empty_storage @ [a]
              \<and> time a = ''09:00'')
   \<and> reachable initial_screen
   \<and> screen_time initial_screen \<notin> set generateTimeSlots
   \<and> press_Agendar 1700000000000 1700000000001 1700000000002 (Some patient_ana)
        initial_screen empty_storage
      = Inl (ValidationError required_fields_message)"
proof -
  have fields: "screen_time screen_booking = ''09:00'' \<and> screen_date screen_booking \<noteq> []
                \<and> screen_doctor screen_booking \<noteq> None"
    by (simp add: screen_booking_def)
  have r1: "reachable screen_booking"
    using reachable_examples by simp
  have r0: "reachable initial_screen"
    by (rule mounted)
  have off: "screen_time initial_screen \<notin> set generateTimeSlots"
    unfolding generateTimeSlots_list by (simp add: initial_screen_def)
  have accepted: "\<exists>st'' a. press_Agendar 1700000000000 1700000000001 1700000000002
                  (Some patient_ana) screen_booking empty_storage = Inr st''
              \<and> stored_appointments st'' = stored_appointments empty_storage @ [a]
              \<and> time a = ''09:00''"
    using r1 fields stored_empty_storage
      time_slot_grid [of screen_booking 1700000000000 1700000000001 1700000000002
        "Some patient_ana" empty_storage]
    by auto
  have rejected: "press_Agendar 1700000000000 1700000000001 1700000000002 (Some patient_ana)
        initial_screen empty_storage
      = Inl (ValidationError required_fields_message)"
    using r0 off
      time_slot_grid [of initial_screen 1700000000000 1700000000001 1700000000002
        "Some patient_ana" empty_storage]
    by auto
  show ?thesis
    using r1 r0 off fields accepted rejected by simp
qed

section \<open>Ids, and the notification of a confirmation\<close>

lemma create_ids:
  assumes "handleCreateAppointment t t_id t_created usr dateText selectedTime selectedDoctor st
             = Inr st'"
  shows "map appointment_id (stored_appointments st')
           = map appointment_id (stored_appointments st) @ [toString t]"
  using create_appends [OF assms] by (auto simp: newAppointment_def)

text \<open>
  A booking keeps the ids of the collection distinct exactly when the text of its clock
  reading is not yet the id of a stored appointment.
\<close>

lemma create_distinct_iff:
  assumes "handleCreateAppointment t t_id t_created usr dateText selectedTime selectedDoctor st
             = Inr st'"
    and "distinct (map appointment_id (stored_appointments st))"
  shows "distinct (map appointment_id (stored_appointments st'))
           \<longleftrightarrow> toString t \<notin> appointment_id ` set (stored_appointments st)"
  using assms(2) unfolding create_ids [OF assms(1)] by auto

lemma replace_first_ids: "map appointment_id (replace_first i s xs) = map appointment_id xs"
  by (induction xs) simp_all

lemma replace_first_last:
  "i \<notin> appointment_id ` set xs \<Longrightarrow> appointment_id a = i
   \<Longrightarrow> replace_first i s (xs @ [a]) = xs @ [a\<lparr>status := s\<rparr>]"
  by (induction xs) auto

lemma find_last:
  "i \<notin> appointment_id ` set xs \<Longrightarrow> appointment_id a = i
   \<Longrightarrow> find (\<lambda>x. appointment_id x = i) (xs @ [a]) = Some a"
  by (induction xs) auto

lemma notify_confirmed_appointments:
  "appointments (notifyAppointmentConfirmed t_id t_created p a st) = appointments st"
  unfolding notifyAppointmentConfirmed_def by (rule createNotification_appointments)

lemma notify_cancelled_appointments:
  "appointments (notifyAppointmentCancelled t_id t_created p a reason st) = appointments st"
  unfolding notifyAppointmentCancelled_def by (rule createNotification_appointments)

lemma setStatus_stored:
  assumes "setStatus t_id t_created i newStatus reason st = Inr st'"
  shows "stored_appointments st' = replace_first i newStatus (stored_appointments st)"
proof -
  from assms have readable: "appointments st \<noteq> Garbled"
    by (auto simp: setStatus_def parse_or_empty_def)
  from assms obtain a where "find (\<lambda>a. appointment_id a = i) (stored_appointments st) = Some a"
    by (auto simp: setStatus_def parse_stored_appointments [OF readable] split: option.splits)
  with assms have "appointments st'
      = Encoded (replace_first i newStatus (stored_appointments st))"
    by (cases newStatus)
       (auto simp: setStatus_def parse_stored_appointments [OF readable] Let_def
          notify_confirmed_appointments notify_cancelled_appointments)
  then show ?thesis
    by (simp add: stored_appointments_def parse_or_empty_def)
qed

text \<open>The two repository operations of the specification keep distinct ids distinct.\<close>

lemma setStatus_ids:
  "setStatus t_id t_created i newStatus reason st = Inr st'
   \<Longrightarrow> map appointment_id (stored_appointments st') = map appointment_id (stored_appointments st)"
  by (simp add: setStatus_stored replace_first_ids)

lemma deleteAppointment_ids:
  "deleteAppointment i st = Inr st'
   \<Longrightarrow> distinct (map appointment_id (stored_appointments st))
   \<Longrightarrow> distinct (map appointment_id (stored_appointments st'))"
  by (cases "appointments st")
     (auto simp: deleteAppointment_def stored_appointments_def parse_or_empty_def
        distinct_map_filter)

text \<open>
  C1, at a failing input. Two bookings are made one after the other on an empty store,
  and both read the same millisecond from the clock. Both succeed, and the collection
  then holds two records with the id \<^verbatim>\<open>1700000000000\<close>.
\<close>

theorem same_millisecond_duplicate_id:
  "\<not> isl booked_once \<and> \<not> isl booked_twice
   \<and> map appointment_id (stored_appointments (projr booked_twice))
       = [''1700000000000'', ''1700000000000'']
   \<and> map date (stored_appointments (projr booked_twice)) = [''10/12/2026'', ''11/12/2026'']
   \<and> \<not> distinct (map appointment_id (stored_appointments (projr booked_twice)))"
proof -
  obtain st1 where one: "booked_once = Inr st1"
    and stored1: "stored_appointments st1
                    = stored_appointments empty_storage
                      @ [newAppointment 1700000000000 (Some patient_ana) ''10/12/2026''
                           ''09:00'' dr_silva]"
    unfolding booked_once_def
    using create_persists [of "''10/12/2026''" "''09:00''" empty_storage 1700000000000
        1700000000001 1700000000002 "Some patient_ana" dr_silva] stored_empty_storage
    by auto
  have readable1: "appointments st1 \<noteq> Garbled"
    using one create_Inr [of 1700000000000 1700000000001 1700000000002 "Some patient_ana"
        "''10/12/2026''" "''09:00''" "Some dr_silva" empty_storage st1]
    unfolding booked_once_def
    by (auto simp: notifyNewAppointment_def createNotification_appointments)
  obtain st2 where two: "booked_twice = Inr st2"
    and stored2: "stored_appointments st2
                    = stored_appointments st1
                      @ [newAppointment 1700000000000 (Some patient_ana) ''11/12/2026''
                           ''10:00'' dr_silva]"
    unfolding booked_twice_def one
    using create_persists [of "''11/12/2026''" "''10:00''" st1 1700000000000
        1700000000003 1700000000004 "Some patient_ana" dr_silva] readable1
    by auto
  have digits: "toString 1700000000000 = ''1700000000000''"
    by (simp add: toString.simps digit_def)
  show ?thesis
    unfolding one two using stored1 stored2 stored_empty_storage
    by (simp add: newAppointment_def digits)
qed

lemma digits_1700000000000: "toString 1700000000000 = ''1700000000000''"
  by (simp add: toString.simps digit_def)

text \<open>
  C4, as the claim states it, fails: on a store whose notification payload does not
  parse, the booking succeeds and \<^verbatim>\<open>setStatus\<close> confirms the appointment, but
  \<^verbatim>\<open>createNotification\<close> gives up in its handler and the notification collection holds no
  new record.
\<close>

theorem confirm_unreadable_notifications_counterexample:
  "\<not> isl booked_unreadable \<and> \<not> isl confirmed_unreadable
   \<and> map appointment_id (stored_appointments (projr confirmed_unreadable)) = [''1700000000000'']
   \<and> map status (stored_appointments (projr confirmed_unreadable)) = [Confirmed]
   \<and> notifications (projr confirmed_unreadable) = Garbled
   \<and> stored_notifications (projr confirmed_unreadable)
       = stored_notifications (projr booked_unreadable)"
proof -
  have one: "booked_unreadable =
      Inr (unreadable_store\<lparr>appointments :=
             Encoded [newAppointment 1700000000000 (Some patient_ana) ''10/12/2026'' ''09:00''
                        dr_silva]\<rparr>)"
    by (simp add: booked_unreadable_def handleCreateAppointment_def unreadable_store_def
          empty_storage_def parse_or_empty_def Let_def notifyNewAppointment_def
          createNotification_def)
  have two: "confirmed_unreadable =
      Inr (unreadable_store\<lparr>appointments :=
             Encoded [(newAppointment 1700000000000 (Some patient_ana) ''10/12/2026'' ''09:00''
                         dr_silva)\<lparr>status := Confirmed\<rparr>]\<rparr>)"
    unfolding confirmed_unreadable_def one
    by (simp add: setStatus_def unreadable_store_def empty_storage_def parse_or_empty_def
          Let_def notifyAppointmentConfirmed_def createNotification_def newAppointment_def
          digits_1700000000000)
  show ?thesis
    unfolding one two
    by (simp add: unreadable_store_def empty_storage_def stored_appointments_def
          stored_notifications_def parse_or_empty_def newAppointment_def
          digits_1700000000000)
qed

text \<open>
  When the id of the booking is already the id of an older appointment, \<^verbatim>\<open>setStatus\<close>
  locates the older one: that one is confirmed and its patient is notified, and the new
  appointment stays pending.
\<close>

lemma reused_id_notifies_other_patient:
  "\<not> isl booked_reused \<and> \<not> isl confirmed_reused
   \<and> map patientId (stored_appointments (projr confirmed_reused)) = [''p2'', ''p1'']
   \<and> map status (stored_appointments (projr confirmed_reused)) = [Confirmed, Pending]
   \<and> map userId (stored_notifications (projr confirmed_reused)) = [''1'', ''p2'']"
proof -
  have one: "booked_reused =
      Inr \<lparr> appointments = Encoded
               [older_visit,
                newAppointment 1700000000000 (Some patient_ana) ''10/12/2026'' ''09:00'' dr_silva],
             notifications = Encoded
               [newNotification 1700000000001 1700000000002
                  \<lparr> draft_userId = ''1'', draft_type = general,
                    draft_title = ''Nova Consulta Agendada'',
                    draft_message = ''Ana agendou uma consulta para 10/12/2026 '' @ [CHR 0xE0]
                                    @ ''s 09:00.'',
                    draft_appointmentId = Some ''1700000000000'' \<rparr>],
             registeredUsers = Missing \<rparr>"
    by (simp add: booked_reused_def handleCreateAppointment_def with_appointments_def
          empty_storage_def parse_or_empty_def Let_def notifyNewAppointment_def
          createNotification_def newAppointment_def dr_silva_def patient_ana_def
          digits_1700000000000)
  have older: "appointment_id older_visit = ''1700000000000'' \<and> patientId older_visit = ''p2''"
    by (simp add: older_visit_def visit_def)
  have run: "\<not> isl confirmed_reused
      \<and> map patientId (stored_appointments (projr confirmed_reused)) = [''p2'', ''p1'']
      \<and> map status (stored_appointments (projr confirmed_reused)) = [Confirmed, Pending]
      \<and> map userId (stored_notifications (projr confirmed_reused)) = [''1'', ''p2'']"
    unfolding confirmed_reused_def one
    by (simp add: setStatus_def parse_or_empty_def Let_def older
          notifyAppointmentConfirmed_def createNotification_def newNotification_def
          stored_appointments_def stored_notifications_def newAppointment_def
          patient_ana_def older_visit_def visit_def)
  show ?thesis
    using run unfolding one by simp
qed

text \<open>
  C4, amended. A patient books an appointment with a doctor and the booking succeeds, and
  the id it got is not the id of an older appointment. Then \<^verbatim>\<open>setStatus\<close> with that id
  and \<^verbatim>\<open>confirmed\<close> succeeds and the appointment is stored as confirmed. When the stored
  notifications are absent or readable, they are afterwards those from before the call
  followed by exactly one new record, which is addressed to the patient, has the type
  \<^verbatim>\<open>appointment_confirmed\<close>, is unread and refers to the appointment. When the
  notification payload does not parse, it is left as it is and no notification is
  recorded.
\<close>

theorem confirm_notifies_patient:
  assumes created: "handleCreateAppointment t t_id t_created (Some u) dateText selectedTime
                      (Some doc) st = Inr st1"
    and fresh: "toString t \<notin> appointment_id ` set (stored_appointments st)"
  shows "(notifications st \<noteq> Garbled
          \<longrightarrow> (\<exists>st2 n. setStatus t_id' t_created' (toString t) Confirmed reason st1 = Inr st2
                 \<and> stored_notifications st2 = stored_notifications st1 @ [n]
                 \<and> userId n = user_id u \<and> ntype n = appointment_confirmed \<and> read n = False
                 \<and> appointmentId n = Some (toString t)
                 \<and> stored_appointments st2
                     = stored_appointments st
                       @ [(newAppointment t (Some u) dateText selectedTime doc)
                            \<lparr>status := Confirmed\<rparr>]))
         \<and> (notifications st = Garbled
          \<longrightarrow> (\<exists>st2. setStatus t_id' t_created' (toString t) Confirmed reason st1 = Inr st2
                 \<and> notifications st2 = Garbled
                 \<and> stored_notifications st2 = stored_notifications st1
                 \<and> stored_appointments st2
                     = stored_appointments st
                       @ [(newAppointment t (Some u) dateText selectedTime doc)
                            \<lparr>status := Confirmed\<rparr>]))"
proof -
  let ?a = "newAppointment t (Some u) dateText selectedTime doc"
  let ?apps = "stored_appointments st"
  let ?st0 = "st\<lparr>appointments := Encoded (?apps @ [?a])\<rparr>"
  have st1: "st1 = notifyNewAppointment t_id t_created (doctor_id doc) ?a ?st0"
    using create_Inr [OF created] by simp
  have id_a: "appointment_id ?a = toString t" and patient_a: "patientId ?a = user_id u"
    by (simp_all add: newAppointment_def)
  have apps1: "appointments st1 = Encoded (?apps @ [?a])"
    unfolding st1 notifyNewAppointment_def by (simp add: createNotification_appointments)
  let ?st1' = "st1\<lparr>appointments := Encoded (replace_first (toString t) Confirmed (?apps @ [?a]))\<rparr>"
  let ?a' = "?a\<lparr>status := Confirmed\<rparr>"
  let ?st2 = "notifyAppointmentConfirmed t_id' t_created' (patientId ?a') ?a' ?st1'"
  have found: "find (\<lambda>x. appointment_id x = toString t) (?apps @ [?a]) = Some ?a"
    by (rule find_last [OF fresh id_a])
  have run: "setStatus t_id' t_created' (toString t) Confirmed reason st1 = Inr ?st2"
    by (simp add: setStatus_def apps1 parse_or_empty_def found Let_def)
  have "appointments ?st2 = Encoded (replace_first (toString t) Confirmed (?apps @ [?a]))"
    by (simp add: notify_confirmed_appointments)
  then have "stored_appointments ?st2 = replace_first (toString t) Confirmed (?apps @ [?a])"
    by (rule stored_appointments_Encoded)
  then have apps2: "stored_appointments ?st2 = ?apps @ [?a']"
    unfolding replace_first_last [OF fresh id_a] .
  have same: "stored_notifications ?st1' = stored_notifications st1"
    by (rule stored_notifications_cong) simp
  show ?thesis
  proof (intro conjI impI)
    assume readable: "notifications st \<noteq> Garbled"
    then have "notifications ?st0 \<noteq> Garbled"
      by simp
    then have notes1: "notifications st1 \<noteq> Garbled"
      unfolding st1 notifyNewAppointment_def by (simp add: createNotification_appends)
    then have notes1': "notifications ?st1' \<noteq> Garbled"
      by simp
    define n where "n = newNotification t_id' t_created'
        \<lparr> draft_userId = patientId ?a', draft_type = appointment_confirmed,
          draft_title = ''Consulta Confirmada'',
          draft_message =
            ''Sua consulta com '' @ doctorName ?a' @ '' foi confirmada para ''
            @ date ?a' @ '' '' @ [CHR 0xE0] @ ''s '' @ time ?a' @ ''.'',
          draft_appointmentId = Some (appointment_id ?a') \<rparr>"
    have st2: "?st2 = ?st1'\<lparr>notifications := Encoded (stored_notifications ?st1' @ [n])\<rparr>"
      unfolding notifyAppointmentConfirmed_def n_def
      by (rule createNotification_appends [OF notes1'])
    have "notifications ?st2 = Encoded (stored_notifications st1 @ [n])"
      unfolding st2 same by simp
    then have notes2: "stored_notifications ?st2 = stored_notifications st1 @ [n]"
      by (rule stored_notifications_Encoded)
    have n_fields: "userId n = user_id u \<and> ntype n = appointment_confirmed \<and> read n = False
                    \<and> appointmentId n = Some (toString t)"
      unfolding n_def by (simp add: newNotification_def newAppointment_def)
    show "\<exists>st2 n. setStatus t_id' t_created' (toString t) Confirmed reason st1 = Inr st2
             \<and> stored_notifications st2 = stored_notifications st1 @ [n]
             \<and> userId n = user_id u \<and> ntype n = appointment_confirmed \<and> read n = False
             \<and> appointmentId n = Some (toString t)
             \<and> stored_appointments st2 = ?apps @ [?a']"
      using run notes2 apps2 n_fields by blast
  next
    assume unreadable: "notifications st = Garbled"
    then have "notifications ?st0 = Garbled"
      by simp
    then have "st1 = ?st0"
      unfolding st1 notifyNewAppointment_def by (rule createNotification_gives_up)
    with unreadable have notes1: "notifications st1 = Garbled"
      by simp
    then have "notifications ?st1' = Garbled"
      by simp
    then have st2: "?st2 = ?st1'"
      unfolding notifyAppointmentConfirmed_def by (rule createNotification_gives_up)
    have notes2: "notifications ?st2 = Garbled"
      unfolding st2 using notes1 by simp
    have kept: "stored_notifications ?st2 = stored_notifications st1"
      unfolding st2 by (rule same)
    show "\<exists>st2. setStatus t_id' t_created' (toString t) Confirmed reason st1 = Inr st2
             \<and> notifications st2 = Garbled
             \<and> stored_notifications st2 = stored_notifications st1
             \<and> stored_appointments st2 = ?apps @ [?a']"
      using run notes2 kept apps2 by blast
  qed
qed

theorem confirm_notifies_patient_witness:
  "\<not> isl booked_once
   \<and> toString 1700000000000 \<notin> appointment_id ` set (stored_appointments empty_storage)
   \<and> notifications empty_storage \<noteq> Garbled
   \<and> (\<exists>st2 n. setStatus 1700000000005 1700000000006 ''1700000000000'' Confirmed None
                   (projr booked_once) = Inr st2
            \<and> stored_notifications st2 = stored_notifications (projr booked_once) @ [n]
            \<and> userId n = ''p1'' \<and> ntype n = appointment_confirmed \<and> read n = False)
   \<and> \<not> isl booked_unreadable
   \<and> notifications unreadable_store = Garbled
   \<and> (\<exists>st2. confirmed_unreadable = Inr st2 \<and> notifications st2 = Garbled)"
proof -
  obtain st1 where one: "booked_once = Inr st1"
    unfolding booked_once_def
    using create_persists [of "''10/12/2026''" "''09:00''" empty_storage 1700000000000
        1700000000001 1700000000002 "Some patient_ana" dr_silva] stored_empty_storage
    by auto
  then have created: "handleCreateAppointment 1700000000000 1700000000001 1700000000002
      (Some patient_ana) ''10/12/2026'' ''09:00'' (Some dr_silva) empty_storage = Inr st1"
    by (simp add: booked_once_def)
  have fresh: "toString 1700000000000 \<notin> appointment_id ` set (stored_appointments empty_storage)"
    using stored_empty_storage by simp
  have readable: "notifications empty_storage \<noteq> Garbled"
    using stored_empty_storage by simp
  have first: "\<exists>st2 n. setStatus 1700000000005 1700000000006 ''1700000000000'' Confirmed None st1
                  = Inr st2
            \<and> stored_notifications st2 = stored_notifications st1 @ [n]
            \<and> userId n = ''p1'' \<and> ntype n = appointment_confirmed \<and> read n = False"
    using readable
      confirm_notifies_patient [OF created fresh, of 1700000000005 1700000000006 None]
    unfolding digits_1700000000000 by (auto simp: patient_ana_def)
  have bad: "stored_appointments unreadable_store = []
             \<and> appointments unreadable_store \<noteq> Garbled
             \<and> notifications unreadable_store = Garbled"
    by (simp add: unreadable_store_def empty_storage_def stored_appointments_def
          parse_or_empty_def)
  obtain st1' where one': "booked_unreadable = Inr st1'"
    unfolding booked_unreadable_def
    using create_persists [of "''10/12/2026''" "''09:00''" unreadable_store 1700000000000
        1700000000001 1700000000002 "Some patient_ana" dr_silva] bad
    by auto
  then have created': "handleCreateAppointment 1700000000000 1700000000001 1700000000002
      (Some patient_ana) ''10/12/2026'' ''09:00'' (Some dr_silva) unreadable_store = Inr st1'"
    by (simp add: booked_unreadable_def)
  have fresh': "toString 1700000000000
                  \<notin> appointment_id ` set (stored_appointments unreadable_store)"
    using bad by simp
  have second: "\<exists>st2. confirmed_unreadable = Inr st2 \<and> notifications st2 = Garbled"
    using bad
      confirm_notifies_patient [OF created' fresh', of 1700000000005 1700000000006 None]
    unfolding digits_1700000000000 confirmed_unreadable_def one' by auto
  from first second fresh readable bad show ?thesis
    unfolding one one' by simp
qed

text \<open>
  On an unreadable notification payload \<^verbatim>\<open>setStatus\<close> still changes the appointment, but
  \<^verbatim>\<open>createNotification\<close> gives up and no notification is recorded.
\<close>

lemma confirm_on_unreadable_notifications:
  assumes "setStatus t_id t_created i newStatus reason st = Inr st'"
    and "notifications st = Garbled"
  shows "notifications st' = Garbled"
proof -
  from assms(1) have readable: "appointments st \<noteq> Garbled"
    by (auto simp: setStatus_def parse_or_empty_def)
  from assms(1) obtain a where
    "find (\<lambda>a. appointment_id a = i) (stored_appointments st) = Some a"
    by (auto simp: setStatus_def parse_stored_appointments [OF readable] split: option.splits)
  with assms show ?thesis
    by (cases newStatus)
       (auto simp: setStatus_def parse_stored_appointments [OF readable] Let_def
          notifyAppointmentConfirmed_def notifyAppointmentCancelled_def
          createNotification_gives_up)
qed

end
